theory Spec2Isabelle
  imports Complex_Main "HOL-Library.Word" "HOL-Library.AList"
begin

unbundle bit_operations_syntax

section \<open>Shared wire types\<close>

text \<open>
  Go's fixed-width integers are words: \<open>uint32\<close> is \<open>32 word\<close> (addition and
  subtraction wrap), \<open>int32\<close> is a \<open>32 word\<close> read through \<open>sint\<close>.
  \<open>time.Time\<close> and \<open>time.Duration\<close> are integers (nanoseconds); \<open>Before\<close> is \<open><\<close>.
  Fee rates (\<open>lnwallet.SatPerKWeight\<close>, an \<open>int64\<close>) and Go's \<open>int\<close> counters are
  \<open>int\<close>; they stay far below \<open>2 ^ 63\<close> in every run the model describes, so the
  wrap-around of these two is not written out.
\<close>

type_synonym Hash = "8 word list"
type_synonym Vertex = "8 word list"
type_synonym Time = int
type_synonym Duration = int
type_synonym SatPerKWeight = int

record wire_OutPoint =
  Hash :: Hash
  Index :: "32 word"

record wire_TxIn =
  PreviousOutPoint :: wire_OutPoint

record wire_TxOut =
  Value :: int
  PkScript :: "8 word list"

record wire_MsgTx =
  TxIn :: "wire_TxIn list"
  TxOut :: "wire_TxOut list"

record wire_MsgBlock =
  Transactions :: "wire_MsgTx list"

text \<open>\<open>lnwire.ShortChannelID\<close>: block height, transaction index, output index.\<close>

record ShortChannelID =
  BlockHeight :: "32 word"
  TxIndex :: "32 word"
  TxPosition :: "16 word"

section \<open>Errors and results\<close>

text \<open>
  \<open>htlcswitch.ForwardingError\<close>: the structured wire failure of a payment attempt, the
  vertex that reported it and the code of the failure message.
\<close>

record ForwardingError =
  ErrorSource :: Vertex
  FailureMessage :: nat

datatype errorCode = ErrOutdated | ErrIgnored | ErrTargetNotInNetwork

text \<open>
  Go \<open>error\<close> values. \<open>RouterError c m\<close> is \<open>newErrf(c, m, ...)\<close>, \<open>NoRouteError\<close> is the
  payment lifecycle's \<open>errNoRoute{lastError}\<close>, \<open>ErrText\<close> is \<open>errors.New\<close> or
  \<open>Errorf\<close> with the fixed part of its text (formatted arguments are dropped), and
  \<open>ErrExternal n\<close> is an error value of a collaborator that is only passed on. The
  others are the error variables of \<open>channeldb\<close>, \<open>sweep\<close> and \<open>lnwallet\<close>.
\<close>

datatype error =
    RouterError errorCode string
  | NoRouteError "ForwardingError option"
  | ForwardingErr ForwardingError
  | ErrGraphNoEdgesFound
  | ErrRemoteSpend
  | ErrTooManyAttempts
  | ErrSweeperShuttingDown
  | ErrDoubleSpend
  | ErrText string
  | ErrExternal nat

text \<open>
  A Go call either panics (a run-time error such as an index out of range), returns a
  non-nil error, or returns its values.
\<close>

datatype ('e, 'a) go_result = Panic | Err 'e | Ok 'a

section \<open>routing/router.go: fetchChanPoint\<close>

text \<open>
  \<open>lnwallet.BlockChainIO\<close> as the router uses it, and \<open>wire.MsgTx.TxHash\<close>; both are
  collaborators outside the repository's files, taken as parameters.
\<close>

record BlockChainIO =
  GetBlockHash :: "int \<Rightarrow> error + Hash"
  GetBlock :: "Hash \<Rightarrow> error + wire_MsgBlock"
  TxHash :: "wire_MsgTx \<Rightarrow> Hash"

text \<open>
  The two slice accesses of the source are index expressions: an index that is not below
  the length of the slice panics, which is written out.
\<close>

definition fetchChanPoint ::
  "BlockChainIO \<Rightarrow> ShortChannelID \<Rightarrow> (error, wire_OutPoint \<times> wire_TxOut) go_result" where
  "fetchChanPoint chain chanID =
     (let blockNum = uint (BlockHeight chanID) in
      case GetBlockHash chain blockNum of
        Inl err \<Rightarrow> Err err
      | Inr blockHash \<Rightarrow>
          (case GetBlock chain blockHash of
             Inl err \<Rightarrow> Err err
           | Inr fundingBlock \<Rightarrow>
               (let numTxns = (word_of_nat (length (Transactions fundingBlock)) :: 32 word) in
                if TxIndex chanID > numTxns - 1
                then Err (ErrText ''tx_index is out of range'')
                else if \<not> unat (TxIndex chanID) < length (Transactions fundingBlock)
                then Panic
                else
                  (let fundingTx = Transactions fundingBlock ! unat (TxIndex chanID);
                       outPoint = \<lparr>Hash = TxHash chain fundingTx,
                                   Index = ucast (TxPosition chanID)\<rparr>
                   in if \<not> unat (TxPosition chanID) < length (TxOut fundingTx)
                      then Panic
                      else Ok (outPoint, TxOut fundingTx ! unat (TxPosition chanID))))))"

section \<open>routing/router.go: the graph store and the router's state\<close>

text \<open>
  The records of \<open>channeldb\<close> with the fields the router reads. Where two Go structs
  share a field name the earlier record's field is written with its record's name
  (\<open>LightningNode.LastUpdate\<close>, \<open>ChannelEdgeInfo.ChannelID\<close>).
\<close>

record LightningNode =
  PubKeyBytes :: Vertex
  LastUpdate :: Time

record ChannelEdgeInfo =
  ChannelID :: "64 word"
  NodeKey1Bytes :: Vertex
  NodeKey2Bytes :: Vertex
  BitcoinKey1Bytes :: "8 word list"
  BitcoinKey2Bytes :: "8 word list"
  Capacity :: int
  ChannelPoint :: wire_OutPoint

record ChannelEdgePolicy =
  ChannelID :: "64 word"
  LastUpdate :: Time
  MessageFlags :: "8 word"
  ChannelFlags :: "8 word"

record EdgePoint =
  FundingPkScript :: "8 word list"
  OutPoint :: wire_OutPoint

text \<open>
  Modelled from the spec: the flag masks \<open>lnwire.ChanUpdateDirection\<close> and
  \<open>lnwire.ChanUpdateDisabled\<close> are declared outside the repository's files. The spec
  gives the policy a direction bit with the values 0 (node1) and 1 (node2) and a disabled
  bit among the channel flags; the direction is the lowest bit, the disabled bit the next.
\<close>

definition ChanUpdateDirection :: "8 word" where
  "ChanUpdateDirection = 1"



definition NewShortChanIDFromInt :: "64 word \<Rightarrow> ShortChannelID" where
  "NewShortChanIDFromInt chanID =
     \<lparr>BlockHeight = ucast (drop_bit 40 chanID),
      TxIndex = ucast (drop_bit 16 chanID) AND 0xFFFFFF,
      TxPosition = ucast chanID\<rparr>"

text \<open>
  What \<open>ChannelGraph.HasChannelEdge\<close> returns: the timestamps of the two directed
  policies, whether the channel is known, whether it is in the zombie index, and the
  error.
\<close>

record HasChannelEdge_result =
  edge1Timestamp :: Time
  edge2Timestamp :: Time
  edgeExists :: bool
  isZombie :: bool
  hasEdgeErr :: "error option"

text \<open>
  The graph store (\<open>channeldb.ChannelGraph\<close>) is a collaborator outside the
  repository's files. The router is modelled over any store: \<open>'g\<close> is the store's
  content and each operation is a function of it; an operation that writes returns the
  new content or its error (the operations are atomic).
\<close>

record 'g ChannelGraph =
  HasLightningNode :: "'g \<Rightarrow> Vertex \<Rightarrow> Time \<times> bool \<times> error option"
  AddLightningNode :: "'g \<Rightarrow> LightningNode \<Rightarrow> error + 'g"
  HasChannelEdge :: "'g \<Rightarrow> 64 word \<Rightarrow> HasChannelEdge_result"
  AddChannelEdge :: "'g \<Rightarrow> ChannelEdgeInfo \<Rightarrow> error + 'g"
  UpdateEdgePolicy :: "'g \<Rightarrow> ChannelEdgePolicy \<Rightarrow> error + 'g"
  PruneGraph ::
    "'g \<Rightarrow> wire_OutPoint list \<Rightarrow> Hash \<Rightarrow> 32 word \<Rightarrow> error + ('g \<times> ChannelEdgeInfo list)"

text \<open>
  \<open>Config\<close>: the fields of the source's configuration that the modelled functions
  use. \<open>GetUtxo\<close> of the chain, \<open>UpdateFilter\<close> of the chain view and the two script
  functions of package \<open>input\<close> are collaborators too and are carried here.
\<close>

record 'g Config =
  Graph :: "'g ChannelGraph"
  Chain :: BlockChainIO
  GetUtxo :: "wire_OutPoint \<Rightarrow> 8 word list \<Rightarrow> 32 word \<Rightarrow> error + wire_TxOut"
  UpdateFilter :: "EdgePoint list \<Rightarrow> 32 word \<Rightarrow> error option"
  GenMultiSigScript :: "8 word list \<Rightarrow> 8 word list \<Rightarrow> error + 8 word list"
  WitnessScriptHash :: "8 word list \<Rightarrow> error + 8 word list"
  ChannelPruneExpiry :: Duration
  AssumeChannelValid :: bool

text \<open>
  The calls by which the router writes to a collaborator, in the order they are made:
  the writes to the graph store, the update of the chain view's filter and the
  notification of the topology clients.
\<close>

datatype router_event =
    CallAddLightningNode LightningNode
  | CallAddChannelEdge ChannelEdgeInfo
  | CallUpdateEdgePolicy ChannelEdgePolicy
  | CallUpdateFilter "EdgePoint list" "32 word"
  | CallPruneGraph "wire_OutPoint list" Hash "32 word"
  | NotifyClosedChannels "32 word" "ChannelEdgeInfo list"

text \<open>
  The router's state: \<open>bestHeight\<close> (a \<open>uint32\<close>), the content of the graph store
  behind \<open>cfg.Graph\<close>, and the calls made so far.
\<close>

record 'g ChannelRouter =
  bestHeight :: "32 word"
  graph :: 'g
  trace :: "router_event list"

text \<open>What a call of a method returned: it panicked, or it returned an error or nil.\<close>

datatype outcome = Panicked | Returned "error option"

datatype routing_update =
    NodeMsg LightningNode
  | EdgeInfoMsg ChannelEdgeInfo
  | EdgePolicyMsg ChannelEdgePolicy
  | OtherMsg

section \<open>routing/router.go: processUpdate\<close>

definition assertNodeAnnFreshness ::
  "'g Config \<Rightarrow> 'g ChannelRouter \<Rightarrow> Vertex \<Rightarrow> Time \<Rightarrow> error option" where
  "assertNodeAnnFreshness cfg r node msgTimestamp =
     (case HasLightningNode (Graph cfg) (graph r) node of
        (lastUpdate, exists, err) \<Rightarrow>
          if err \<noteq> None
          then Some (ErrText ''unable to query for the existence of node'')
          else if \<not> exists
          then Some (RouterError ErrIgnored ''Ignoring node announcement for node not found in channel graph'')
          else if \<not> lastUpdate < msgTimestamp
          then Some (RouterError ErrOutdated ''Ignoring outdated announcement'')
          else None)"

text \<open>
  \<open>now\<close> is the clock read by \<open>time.Since\<close>. The type switch of the source is the
  pattern match; each equation is one case. A call that writes is appended to the trace
  before its result is inspected.
\<close>

fun processUpdate ::
  "'g Config \<Rightarrow> Time \<Rightarrow> 'g ChannelRouter \<Rightarrow> routing_update \<Rightarrow> outcome \<times> 'g ChannelRouter" where
  "processUpdate cfg now r (NodeMsg msg) =
     (case assertNodeAnnFreshness cfg r (PubKeyBytes msg) (LightningNode.LastUpdate msg) of
        Some err \<Rightarrow> (Returned (Some err), r)
      | None \<Rightarrow>
          (let r1 = r\<lparr>trace := trace r @ [CallAddLightningNode msg]\<rparr> in
           case AddLightningNode (Graph cfg) (graph r) msg of
             Inl err \<Rightarrow> (Returned (Some (ErrText ''unable to add node to the graph'')), r1)
           | Inr g' \<Rightarrow> (Returned None, r1\<lparr>graph := g'\<rparr>)))"
| "processUpdate cfg now r (EdgeInfoMsg msg) =
     (let res = HasChannelEdge (Graph cfg) (graph r) (ChannelEdgeInfo.ChannelID msg) in
      if hasEdgeErr res \<noteq> None \<and> hasEdgeErr res \<noteq> Some ErrGraphNoEdgesFound
      then (Returned (Some (ErrText ''unable to check for edge existence'')), r)
      else if isZombie res
      then (Returned (Some (RouterError ErrIgnored ''ignoring msg for zombie chan_id'')), r)
      else if edgeExists res
      then (Returned (Some (RouterError ErrIgnored ''ignoring msg for known chan_id'')), r)
      else if AssumeChannelValid cfg
      then
        (let r1 = r\<lparr>trace := trace r @ [CallAddChannelEdge msg]\<rparr> in
         case AddChannelEdge (Graph cfg) (graph r) msg of
           Inl err \<Rightarrow> (Returned (Some (ErrText ''unable to add edge'')), r1)
         | Inr g' \<Rightarrow> (Returned None, r1\<lparr>graph := g'\<rparr>))
      else
        (let channelID = NewShortChanIDFromInt (ChannelEdgeInfo.ChannelID msg) in
         case fetchChanPoint (Chain cfg) channelID of
           Panic \<Rightarrow> (Panicked, r)
         | Err err \<Rightarrow> (Returned (Some (ErrText ''unable to fetch chan point'')), r)
         | Ok (fundingPoint, txOut) \<Rightarrow>
             (case GenMultiSigScript cfg (BitcoinKey1Bytes msg) (BitcoinKey2Bytes msg) of
                Inl err \<Rightarrow> (Returned (Some err), r)
              | Inr witnessScript \<Rightarrow>
                  (case WitnessScriptHash cfg witnessScript of
                     Inl err \<Rightarrow> (Returned (Some err), r)
                   | Inr fundingPkScript \<Rightarrow>
                       (case GetUtxo cfg fundingPoint fundingPkScript (BlockHeight channelID) of
                          Inl err \<Rightarrow> (Returned (Some (ErrText ''unable to fetch utxo'')), r)
                        | Inr chanUtxo \<Rightarrow>
                            if fundingPkScript \<noteq> PkScript chanUtxo
                            then (Returned (Some (ErrText ''pkScript mismatch'')), r)
                            else
                              (let msg' = msg\<lparr>Capacity := wire_TxOut.Value chanUtxo,
                                               ChannelPoint := fundingPoint\<rparr>;
                                   r1 = r\<lparr>trace := trace r @ [CallAddChannelEdge msg']\<rparr>
                               in case AddChannelEdge (Graph cfg) (graph r) msg' of
                                    Inl err \<Rightarrow>
                                      (Returned (Some (ErrText ''unable to add edge'')), r1)
                                  | Inr g' \<Rightarrow>
                                      (let filterUpdate =
                                             [\<lparr>FundingPkScript = fundingPkScript,
                                               OutPoint = fundingPoint\<rparr>];
                                           r2 = r1\<lparr>graph := g',
                                                   trace := trace r1 @
                                                     [CallUpdateFilter filterUpdate (bestHeight r)]\<rparr>
                                       in case UpdateFilter cfg filterUpdate (bestHeight r) of
                                            Some err \<Rightarrow>
                                              (Returned (Some (ErrText ''unable to update chain view'')), r2)
                                          | None \<Rightarrow> (Returned None, r2))))))))"
| "processUpdate cfg now r (EdgePolicyMsg msg) =
     (let res = HasChannelEdge (Graph cfg) (graph r) (ChannelID msg) in
      if hasEdgeErr res \<noteq> None \<and> hasEdgeErr res \<noteq> Some ErrGraphNoEdgesFound
      then (Returned (Some (ErrText ''unable to check for edge existence'')), r)
      else
        (let isStaleUpdate = (now - LastUpdate msg > ChannelPruneExpiry cfg) in
         if isZombie res \<and> isStaleUpdate
         then (Returned (Some (RouterError ErrIgnored ''ignoring stale update for zombie chan_id'')), r)
         else if \<not> edgeExists res
         then (Returned (Some (RouterError ErrIgnored ''ignoring update for unknown chan_id'')), r)
         else if (if ChannelFlags msg AND ChanUpdateDirection = 0
                  then \<not> edge1Timestamp res < LastUpdate msg
                  else if ChannelFlags msg AND ChanUpdateDirection = 1
                  then \<not> edge2Timestamp res < LastUpdate msg
                  else False)
         then (Returned (Some (RouterError ErrOutdated ''Ignoring outdated update for known chan_id'')), r)
         else
           (let r1 = r\<lparr>trace := trace r @ [CallUpdateEdgePolicy msg]\<rparr> in
            case UpdateEdgePolicy (Graph cfg) (graph r) msg of
              Inl err \<Rightarrow> (Returned (Some (ErrText ''unable to add channel'')), r1)
            | Inr g' \<Rightarrow> (Returned None, r1\<lparr>graph := g'\<rparr>))))"
| "processUpdate cfg now r OtherMsg =
     (Returned (Some (ErrText ''wrong routing update message type'')), r)"

section \<open>routing/router.go: IsStaleEdgePolicy\<close>


section \<open>routing/router.go: networkHandler, the arm for a new block\<close>

text \<open>\<open>chainview.FilteredBlock\<close>; its fields carry the record's name as a prefix.\<close>

record FilteredBlock =
  fb_Hash :: Hash
  fb_Height :: "32 word"
  fb_Transactions :: "wire_MsgTx list"

text \<open>
  One pass through the \<open>select\<close> of \<open>networkHandler\<close> that receives \<open>chainUpdate\<close>
  from \<open>r.newBlocks\<close> (the channel is open). Logging is not modelled.
\<close>

definition networkHandler_newBlock ::
  "'g Config \<Rightarrow> 'g ChannelRouter \<Rightarrow> FilteredBlock \<Rightarrow> 'g ChannelRouter" where
  "networkHandler_newBlock cfg r chainUpdate =
     (let currentHeight = bestHeight r in
      if fb_Height chainUpdate \<noteq> currentHeight + 1 then r
      else
        (let blockHeight = fb_Height chainUpdate;
             spentOutputs =
               concat (map (\<lambda>tx. map PreviousOutPoint (TxIn tx)) (fb_Transactions chainUpdate));
             r1 = r\<lparr>bestHeight := blockHeight,
                    trace := trace r @
                      [CallPruneGraph spentOutputs (fb_Hash chainUpdate) (fb_Height chainUpdate)]\<rparr>
         in case PruneGraph (Graph cfg) (graph r) spentOutputs (fb_Hash chainUpdate)
                   (fb_Height chainUpdate) of
              Inl err \<Rightarrow> r1
            | Inr (g', chansClosed) \<Rightarrow>
                if length chansClosed = 0 then r1\<lparr>graph := g'\<rparr>
                else r1\<lparr>graph := g',
                        trace := trace r1 @ [NotifyClosedChannels blockHeight chansClosed]\<rparr>))"

section \<open>routing/router.go: SendToRoute\<close>

type_synonym Preimage = "8 word list"
type_synonym PaymentSession = nat

text \<open>
  \<open>route.Route\<close> with its total amount (\<open>lnwire.MilliSatoshi\<close>, a \<open>uint64\<close>) and the
  channel ids of its hops.
\<close>

record Route =
  TotalAmount :: "64 word"
  Hops :: "64 word list"

record PaymentCreationInfo =
  PaymentHash :: Hash
  Value :: "64 word"
  CreationDate :: Time
  PaymentRequest :: "8 word list option"

text \<open>
  Of the fields of \<open>LightningPayment\<close> only those that \<open>sendPayment\<close> reads are
  kept; \<open>SendToRoute\<close> sets the payment hash and leaves the others at their zero value.
\<close>

record LightningPayment =
  PaymentHash :: Hash
  FinalCLTVDelta :: "16 word"
  PayAttemptTimeout :: Duration

record PaymentAttemptInfo =
  PaymentID :: "64 word"
  AttemptRoute :: Route

text \<open>
  The state \<open>sendPayment\<close> hands to the payment lifecycle; \<open>timeoutChan\<close> holds the
  duration after which the timer fires, if a timer is set.
\<close>

record paymentLifecycle =
  payment :: LightningPayment
  paySession :: PaymentSession
  currentHeight :: "32 word"
  finalCLTVDelta :: "16 word"
  attempt :: "PaymentAttemptInfo option"
  lastError :: "error option"
  timeoutChan :: "Duration option"

text \<open>
  The collaborators of a payment, outside the repository's files: mission control, the
  route's fee total, the control tower, the chain, the payment lifecycle
  (\<open>resumePayment\<close>) and the clock.
\<close>

record PaymentEnv =
  NewPaymentSessionForRoute :: "Route \<Rightarrow> PaymentSession"
  TotalFees :: "Route \<Rightarrow> 64 word"
  InitPayment :: "Hash \<Rightarrow> PaymentCreationInfo \<Rightarrow> error option"
  GetBestBlock :: "error + Hash \<times> 32 word"
  resumePayment :: "paymentLifecycle \<Rightarrow> error + Preimage \<times> Route"
  timeNow :: Time

definition sendPayment ::
  "PaymentEnv \<Rightarrow> PaymentAttemptInfo option \<Rightarrow> LightningPayment \<Rightarrow> PaymentSession \<Rightarrow>
     error + Preimage \<times> Route" where
  "sendPayment env existingAttempt pmt session =
     (case GetBestBlock env of
        Inl err \<Rightarrow> Inl err
      | Inr (bestHash, height) \<Rightarrow>
          (let p = \<lparr>payment = pmt,
                    paySession = session,
                    currentHeight = height,
                    finalCLTVDelta = FinalCLTVDelta pmt,
                    attempt = existingAttempt,
                    lastError = None,
                    timeoutChan = None\<rparr>;
               p' = (if PayAttemptTimeout pmt \<noteq> 0
                     then p\<lparr>timeoutChan := Some (PayAttemptTimeout pmt)\<rparr> else p)
           in resumePayment env p'))"

definition SendToRoute :: "PaymentEnv \<Rightarrow> Hash \<Rightarrow> Route \<Rightarrow> error + Preimage" where
  "SendToRoute env hash route =
     (let session = NewPaymentSessionForRoute env route;
          amt = TotalAmount route - TotalFees env route;
          info = \<lparr>PaymentCreationInfo.PaymentHash = hash,
                  Value = amt,
                  CreationDate = timeNow env,
                  PaymentRequest = None\<rparr>
      in case InitPayment env hash info of
           Some err \<Rightarrow> Inl err
         | None \<Rightarrow>
             (let pmt = \<lparr>PaymentHash = hash, FinalCLTVDelta = 0, PayAttemptTimeout = 0\<rparr> in
              case sendPayment env None pmt session of
                Inl err \<Rightarrow>
                  (case err of
                     NoRouteError noRouteLast \<Rightarrow>
                       (case noRouteLast of
                          None \<Rightarrow> Inl (ErrText ''failure message missing'')
                        | Some fErr \<Rightarrow> Inl (ForwardingErr fErr))
                   | _ \<Rightarrow> Inl err)
              | Inr (preimage, rt) \<Rightarrow> Inr preimage))"

section \<open>Runs of policy updates\<close>

text \<open>
  The direction of a policy as \<open>newEdgeLocator\<close> computes it, and the timestamp the
  graph store reports for a channel id and direction.
\<close>

definition policyDirection :: "ChannelEdgePolicy \<Rightarrow> 8 word" where
  "policyDirection edge = ChannelFlags edge AND ChanUpdateDirection"

definition storedTimestamp :: "'g Config \<Rightarrow> 'g ChannelRouter \<Rightarrow> 64 word \<Rightarrow> 8 word \<Rightarrow> Time" where
  "storedTimestamp cfg r chanID d =
     (let res = HasChannelEdge (Graph cfg) (graph r) chanID
      in if d = 0 then edge1Timestamp res else edge2Timestamp res)"

text \<open>
  The policy updates of a list are handed to \<open>processUpdate\<close> one after the other, each
  with the clock's reading at its call (the mutex on the channel id serialises the
  updates of one channel). The log pairs every update with what the call returned.
\<close>

fun processPolicyUpdates ::
  "'g Config \<Rightarrow> 'g ChannelRouter \<Rightarrow> (Time \<times> ChannelEdgePolicy) list \<Rightarrow>
     (ChannelEdgePolicy \<times> outcome) list \<times> 'g ChannelRouter" where
  "processPolicyUpdates cfg r [] = ([], r)"
| "processPolicyUpdates cfg r ((now, msg) # rest) =
     (case processUpdate cfg now r (EdgePolicyMsg msg) of
        (res, r1) \<Rightarrow>
          (case processPolicyUpdates cfg r1 rest of
             (entries, r2) \<Rightarrow> ((msg, res) # entries, r2)))"

fun isOutdated :: "outcome \<Rightarrow> bool" where
  "isOutdated (Returned (Some (RouterError ErrOutdated m))) = True"
| "isOutdated res = False"

text \<open>
  Modelled from the spec: the graph store is outside the repository's files. The spec
  keeps, for each channel id and direction, at most one policy, and has
  \<open>HasChannelEdge\<close> return the timestamps of the two policies of a channel. So a
  successful \<open>UpdateEdgePolicy\<close> sets the timestamp reported for the policy's channel id
  and direction to the policy's and leaves every other reported timestamp as it was.
\<close>

definition UpdateEdgePolicy_replaces :: "'g ChannelGraph \<Rightarrow> bool" where
  "UpdateEdgePolicy_replaces G \<longleftrightarrow>
     (\<forall>g edge g' chanID.
        UpdateEdgePolicy G g edge = Inr g' \<longrightarrow>
          edge1Timestamp (HasChannelEdge G g' chanID) =
            (if chanID = ChannelID edge \<and> policyDirection edge = 0 then LastUpdate edge
             else edge1Timestamp (HasChannelEdge G g chanID)) \<and>
          edge2Timestamp (HasChannelEdge G g' chanID) =
            (if chanID = ChannelID edge \<and> policyDirection edge \<noteq> 0 then LastUpdate edge
             else edge2Timestamp (HasChannelEdge G g chanID)))"

section \<open>An in-memory graph store\<close>

text \<open>
  Modelled from the spec: the graph store (\<open>channeldb.ChannelGraph\<close>) is outside the
  repository's files. An edge policy exists only with its channel info; a channel has at
  most one policy for each direction; a channel is either live or in the zombie index;
  \<open>PruneGraph\<close> closes the channels whose funding outpoint is spent and returns them. A
  policy that is absent has timestamp 0.
\<close>

record memEdge =
  edgeInfo :: ChannelEdgeInfo
  policy1 :: "ChannelEdgePolicy option"
  policy2 :: "ChannelEdgePolicy option"

record memGraph =
  liveEdges :: "(64 word \<times> memEdge) list"
  zombieIndex :: "64 word list"
  knownNodes :: "(Vertex \<times> LightningNode) list"

definition policyTime :: "ChannelEdgePolicy option \<Rightarrow> Time" where
  "policyTime p = (case p of None \<Rightarrow> 0 | Some edge \<Rightarrow> LastUpdate edge)"

definition mem_HasChannelEdge :: "memGraph \<Rightarrow> 64 word \<Rightarrow> HasChannelEdge_result" where
  "mem_HasChannelEdge g chanID =
     (case map_of (liveEdges g) chanID of
        None \<Rightarrow>
          \<lparr>edge1Timestamp = 0, edge2Timestamp = 0, edgeExists = False,
           isZombie = (chanID \<in> set (zombieIndex g)), hasEdgeErr = None\<rparr>
      | Some e \<Rightarrow>
          \<lparr>edge1Timestamp = policyTime (policy1 e), edge2Timestamp = policyTime (policy2 e),
           edgeExists = True, isZombie = False, hasEdgeErr = None\<rparr>)"

definition mem_UpdateEdgePolicy :: "memGraph \<Rightarrow> ChannelEdgePolicy \<Rightarrow> error + memGraph" where
  "mem_UpdateEdgePolicy g edge =
     (case map_of (liveEdges g) (ChannelID edge) of
        None \<Rightarrow> Inl (ErrText ''edge not found'')
      | Some e \<Rightarrow>
          Inr (g\<lparr>liveEdges :=
                 AList.update (ChannelID edge)
                   (if policyDirection edge = 0 then e\<lparr>policy1 := Some edge\<rparr>
                    else e\<lparr>policy2 := Some edge\<rparr>)
                   (liveEdges g)\<rparr>))"

definition mem_AddChannelEdge :: "memGraph \<Rightarrow> ChannelEdgeInfo \<Rightarrow> error + memGraph" where
  "mem_AddChannelEdge g info =
     (case map_of (liveEdges g) (ChannelEdgeInfo.ChannelID info) of
        Some e \<Rightarrow> Inl (ErrText ''edge already exists'')
      | None \<Rightarrow>
          Inr (g\<lparr>liveEdges := liveEdges g @
                 [(ChannelEdgeInfo.ChannelID info,
                   \<lparr>edgeInfo = info, policy1 = None, policy2 = None\<rparr>)]\<rparr>))"

definition mem_HasLightningNode :: "memGraph \<Rightarrow> Vertex \<Rightarrow> Time \<times> bool \<times> error option" where
  "mem_HasLightningNode g v =
     (case map_of (knownNodes g) v of
        None \<Rightarrow> (0, False, None)
      | Some n \<Rightarrow> (LightningNode.LastUpdate n, True, None))"

definition mem_AddLightningNode :: "memGraph \<Rightarrow> LightningNode \<Rightarrow> error + memGraph" where
  "mem_AddLightningNode g n =
     Inr (g\<lparr>knownNodes := AList.update (PubKeyBytes n) n (knownNodes g)\<rparr>)"

definition mem_PruneGraph ::
  "memGraph \<Rightarrow> wire_OutPoint list \<Rightarrow> Hash \<Rightarrow> 32 word \<Rightarrow> error + (memGraph \<times> ChannelEdgeInfo list)" where
  "mem_PruneGraph g spent blockHash blockHeight =
     Inr (g\<lparr>liveEdges := filter (\<lambda>ce. ChannelPoint (edgeInfo (snd ce)) \<notin> set spent) (liveEdges g)\<rparr>,
          map (\<lambda>ce. edgeInfo (snd ce))
            (filter (\<lambda>ce. ChannelPoint (edgeInfo (snd ce)) \<in> set spent) (liveEdges g)))"

definition memStore :: "memGraph ChannelGraph" where
  "memStore =
     \<lparr>HasLightningNode = mem_HasLightningNode,
      AddLightningNode = mem_AddLightningNode,
      HasChannelEdge = mem_HasChannelEdge,
      AddChannelEdge = mem_AddChannelEdge,
      UpdateEdgePolicy = mem_UpdateEdgePolicy,
      PruneGraph = mem_PruneGraph\<rparr>"

text \<open>
  The updates of a log for one channel id and direction that were applied (the call
  returned nil), and those that were rejected as outdated.
\<close>

definition appliedUpdates ::
  "64 word \<Rightarrow> 8 word \<Rightarrow> (ChannelEdgePolicy \<times> outcome) list \<Rightarrow> ChannelEdgePolicy list" where
  "appliedUpdates chanID d entries =
     map fst (filter (\<lambda>(edge, res). res = Returned None \<and> ChannelID edge = chanID \<and>
                                    policyDirection edge = d) entries)"

definition outdatedUpdates ::
  "64 word \<Rightarrow> 8 word \<Rightarrow> (ChannelEdgePolicy \<times> outcome) list \<Rightarrow> ChannelEdgePolicy list" where
  "outdatedUpdates chanID d entries =
     map fst (filter (\<lambda>(edge, res). isOutdated res \<and> ChannelID edge = chanID \<and>
                                    policyDirection edge = d) entries)"

section \<open>sweep/sweeper.go: data\<close>

text \<open>
  \<open>input.Input\<close> is an interface; the model keeps what its methods return. The outpoint
  and the sign descriptor are pointers and may be nil.
\<close>

record SignDescriptor =
  Output :: wire_TxOut

record Input =
  OutPoint :: "wire_OutPoint option"
  SignDesc :: "SignDescriptor option"
  WitnessType :: nat
  HeightHint :: "32 word"

text \<open>
  Modelled from the spec: \<open>FeePreference\<close> is declared outside the repository's files;
  the spec has it hold either a confirmation target or an absolute fee rate.
\<close>

record FeePreference =
  ConfTarget :: "32 word"
  FeeRate :: SatPerKWeight

text \<open>
  \<open>Result\<close>, and result channels by their identity. A send on a result channel and the
  other calls by which the sweeper acts on a collaborator are kept, in order, in the
  sweeper's list of events; a call is listed with what it returned.
\<close>

record Result =
  ResultErr :: "error option"
  ResultTx :: "wire_MsgTx option"

type_synonym ResultChan = nat

datatype sweep_event =
    CallGenSweepScript
  | CallNotifyPublishTx wire_MsgTx "error option"
  | CallPublishTransaction wire_MsgTx "error option"
  | SendResult ResultChan Result
  | CallNtfnRegCancel nat

record pendingInput =
  listeners :: "ResultChan list"
  input :: Input
  ntfnRegCancel :: "nat option"
  minPublishHeight :: "32 word"
  publishAttempts :: int
  feePreference :: FeePreference
  lastFeeRate :: SatPerKWeight

text \<open>
  \<open>pendingInputs\<close> is a Go map from outpoint to a pointer to the pending input. The
  model is an association list with distinct keys; the order of the list is the order in
  which \<open>range\<close> visits the map, which Go leaves open.
\<close>

type_synonym pendingInputs = "(wire_OutPoint \<times> pendingInput) list"


record sweepInputMessage =
  msgInput :: Input
  msgFeePreference :: FeePreference
  resultChan :: ResultChan

text \<open>
  The source of \<open>math/rand\<close>: the raw values it will deliver and how many were drawn.
  \<open>Int31n n\<close> panics for \<open>n \<le> 0\<close> and otherwise returns a value from 0 up to, and
  not including, \<open>n\<close>; any such value can be the reduction of a raw value.
\<close>

record rand_src =
  draws :: "nat \<Rightarrow> nat"
  drawn :: nat

definition Int31n :: "rand_src \<Rightarrow> int \<Rightarrow> (32 word \<times> rand_src) option" where
  "Int31n rs n =
     (if n \<le> 0 then None
      else Some (word_of_int (int (draws rs (drawn rs)) mod n), rs\<lparr>drawn := drawn rs + 1\<rparr>))"

text \<open>
  \<open>UtxoSweeperConfig\<close>. The functions and interfaces of the configuration are
  collaborators and are taken as parameters: each gives what the call returns.
  \<open>DetermineFeePerKw\<close> (with the fee estimator) and \<open>createSweepTx\<close> (with the signer)
  are functions of the package outside the repository's files and are carried here too.
  \<open>NextAttemptDeltaFunc\<close> may draw from the random source and may panic (\<open>None\<close>).
\<close>

record UtxoSweeperConfig =
  GenSweepScript :: "error + 8 word list option"
  DetermineFeePerKw :: "FeePreference \<Rightarrow> error + SatPerKWeight"
  createSweepTx ::
    "Input list \<Rightarrow> 8 word list option \<Rightarrow> 32 word \<Rightarrow> SatPerKWeight \<Rightarrow> error + wire_MsgTx"
  NotifyPublishTx :: "wire_MsgTx \<Rightarrow> error option"
  PublishTransaction :: "wire_MsgTx \<Rightarrow> error option"
  MaxInputsPerTx :: int
  MaxSweepAttempts :: int
  NextAttemptDeltaFunc :: "rand_src \<Rightarrow> int \<Rightarrow> (32 word \<times> rand_src) option"
  MaxFeeRate :: SatPerKWeight
  FeeRateBucketSize :: int

text \<open>
  \<open>UtxoSweeper\<close>: the fields the modelled methods use, the messages delivered on
  \<open>newInputs\<close> and not yet taken by the main loop, the number of result channels made,
  the random source and the events so far.
\<close>

record UtxoSweeper =
  pendingInputs :: pendingInputs
  currentOutputScript :: "8 word list option"
  relayFeeRate :: SatPerKWeight
  newInputs :: "sweepInputMessage list"
  chansMade :: nat
  rng :: rand_src
  events :: "sweep_event list"

section \<open>sweep/sweeper.go: SweepInput and feeRateForPreference\<close>

definition feeRateForPreference ::
  "UtxoSweeperConfig \<Rightarrow> UtxoSweeper \<Rightarrow> FeePreference \<Rightarrow> error + SatPerKWeight" where
  "feeRateForPreference cfg s pref =
     (case DetermineFeePerKw cfg pref of
        Inl err \<Rightarrow> Inl err
      | Inr feeRate \<Rightarrow>
          if feeRate < relayFeeRate s
          then Inl (ErrText ''fee preference resulted in invalid fee rate, mininum'')
          else if feeRate > MaxFeeRate cfg
          then Inl (ErrText ''fee preference resulted in invalid fee rate, maximum'')
          else Inr feeRate)"

text \<open>
  The \<open>select\<close> at the end of \<open>SweepInput\<close> either hands the message to the main loop
  or finds \<open>quit\<close> closed; which of the two happens is an argument.
\<close>

datatype select_arm = SendNewInputs | QuitClosed

definition SweepInput ::
  "UtxoSweeperConfig \<Rightarrow> UtxoSweeper \<Rightarrow> Input option \<Rightarrow> FeePreference \<Rightarrow> select_arm \<Rightarrow>
     (error + ResultChan) \<times> UtxoSweeper" where
  "SweepInput cfg s inp pref arm =
     (case inp of
        None \<Rightarrow> (Inl (ErrText ''nil input received''), s)
      | Some i \<Rightarrow>
          if OutPoint i = None \<or> SignDesc i = None
          then (Inl (ErrText ''nil input received''), s)
          else
            (case feeRateForPreference cfg s pref of
               Inl err \<Rightarrow> (Inl err, s)
             | Inr feeRate \<Rightarrow>
                 (let sweeperInput = \<lparr>msgInput = i, msgFeePreference = pref,
                                       resultChan = chansMade s\<rparr>;
                      s1 = s\<lparr>chansMade := chansMade s + 1\<rparr>
                  in case arm of
                       SendNewInputs \<Rightarrow>
                         (Inr (resultChan sweeperInput),
                          s1\<lparr>newInputs := newInputs s1 @ [sweeperInput]\<rparr>)
                     | QuitClosed \<Rightarrow> (Inl ErrSweeperShuttingDown, s1))))"

section \<open>sweep/sweeper.go: bucketForFeeRate and clusterBySweepFeeRate\<close>






section \<open>sweep/sweeper.go: signalAndRemove, sweep and DefaultNextAttemptDeltaFunc\<close>

text \<open>
  \<open>signalAndRemove\<close> reads the pending input through the map; for an outpoint that is
  not pending the pointer is nil and the read of \<open>listeners\<close> panics (\<open>None\<close>).
\<close>

definition signalAndRemove :: "UtxoSweeper \<Rightarrow> wire_OutPoint \<Rightarrow> Result \<Rightarrow> UtxoSweeper option" where
  "signalAndRemove s outpoint result =
     (case map_of (pendingInputs s) outpoint of
        None \<Rightarrow> None
      | Some pendInput \<Rightarrow>
          Some (s\<lparr>events := events s @ map (\<lambda>c. SendResult c result) (listeners pendInput) @
                     (case ntfnRegCancel pendInput of
                        None \<Rightarrow> []
                      | Some reg \<Rightarrow> [CallNtfnRegCancel reg]),
                   pendingInputs := AList.delete outpoint (pendingInputs s)\<rparr>))"

text \<open>
  The loop at the end of \<open>sweep\<close> over the inputs of the transaction. The addition
  \<open>currentHeight + nextAttemptDelta\<close> is on \<open>int32\<close>; the height is
  written \<open>curHeight\<close>.
\<close>

fun reschedule ::
  "UtxoSweeperConfig \<Rightarrow> 32 word \<Rightarrow> UtxoSweeper \<Rightarrow> wire_TxIn list \<Rightarrow> outcome \<times> UtxoSweeper" where
  "reschedule cfg curHeight s [] = (Returned None, s)"
| "reschedule cfg curHeight s (txIn # rest) =
     (case map_of (pendingInputs s) (PreviousOutPoint txIn) of
        None \<Rightarrow> reschedule cfg curHeight s rest
      | Some p \<Rightarrow>
          (let p1 = p\<lparr>publishAttempts := publishAttempts p + 1\<rparr>;
               s1 = s\<lparr>pendingInputs := AList.update (PreviousOutPoint txIn) p1 (pendingInputs s)\<rparr>
           in case NextAttemptDeltaFunc cfg (rng s) (publishAttempts p1) of
                None \<Rightarrow> (Panicked, s1)
              | Some (nextAttemptDelta, rng') \<Rightarrow>
                  (let p2 = p1\<lparr>minPublishHeight := curHeight + nextAttemptDelta\<rparr>;
                       s2 = s\<lparr>pendingInputs :=
                                AList.update (PreviousOutPoint txIn) p2 (pendingInputs s),
                              rng := rng'\<rparr>
                   in if publishAttempts p2 \<ge> MaxSweepAttempts cfg
                      then
                        (case signalAndRemove s2 (PreviousOutPoint txIn)
                                \<lparr>ResultErr = Some ErrTooManyAttempts, ResultTx = None\<rparr> of
                           None \<Rightarrow> (Panicked, s2)
                         | Some s3 \<Rightarrow> reschedule cfg curHeight s3 rest)
                      else reschedule cfg curHeight s2 rest)))"

definition sweep ::
  "UtxoSweeperConfig \<Rightarrow> UtxoSweeper \<Rightarrow> Input list \<Rightarrow> SatPerKWeight \<Rightarrow> 32 word \<Rightarrow>
     outcome \<times> UtxoSweeper" where
  "sweep cfg s ins feeRate curHeight =
     (let gen =
            (if currentOutputScript s = None
             then
               (case GenSweepScript cfg of
                  Inl err \<Rightarrow> Inl (s\<lparr>events := events s @ [CallGenSweepScript]\<rparr>)
                | Inr pkScript \<Rightarrow>
                    Inr (s\<lparr>events := events s @ [CallGenSweepScript],
                           currentOutputScript := pkScript\<rparr>))
             else Inr s)
      in case gen of
           Inl s0 \<Rightarrow> (Returned (Some (ErrText ''gen sweep script'')), s0)
         | Inr s0 \<Rightarrow>
             (case createSweepTx cfg ins (currentOutputScript s0) curHeight feeRate of
                Inl err \<Rightarrow> (Returned (Some (ErrText ''create sweep tx'')), s0)
              | Inr tx \<Rightarrow>
                  (let s1 = s0\<lparr>events := events s0 @
                                  [CallNotifyPublishTx tx (NotifyPublishTx cfg tx)]\<rparr>
                   in if NotifyPublishTx cfg tx \<noteq> None
                      then (Returned (Some (ErrText ''notify publish tx'')), s1)
                      else
                        (let err = PublishTransaction cfg tx;
                             s2 = s1\<lparr>events := events s1 @ [CallPublishTransaction tx err]\<rparr>
                         in if err \<noteq> None \<and> err \<noteq> Some ErrDoubleSpend
                            then (Returned (Some (ErrText ''publish tx'')), s2)
                            else
                              (let s3 = (if err = None then s2\<lparr>currentOutputScript := None\<rparr>
                                         else s2)
                               in reschedule cfg curHeight s3 (TxIn tx))))))"

text \<open>
  \<open>1 + rand.Int31n(1<<uint(attempts-1))\<close>. The constant 1 takes the type \<open>int32\<close> of
  the parameter of \<open>Int31n\<close>; the shift count is \<open>attempts - 1\<close> converted to \<open>uint\<close>
  (64 bits), and a shift by 32 or more gives 0.
\<close>

definition DefaultNextAttemptDeltaFunc :: "rand_src \<Rightarrow> int \<Rightarrow> (32 word \<times> rand_src) option" where
  "DefaultNextAttemptDeltaFunc rs attempts =
     (let shift = nat ((attempts - 1) mod 2 ^ 64);
          n = (push_bit shift 1 :: 32 word)
      in case Int31n rs (sint n) of
           None \<Rightarrow> None
         | Some (x, rs') \<Rightarrow> Some (1 + x, rs'))"

section \<open>Runs of sweep\<close>

text \<open>
  The events a call added, the events by which \<open>signalAndRemove\<close> acts, and the result
  that is sent for an input that ran out of attempts.
\<close>

definition newEvents :: "UtxoSweeper \<Rightarrow> UtxoSweeper \<Rightarrow> sweep_event list" where
  "newEvents s s' = drop (length (events s)) (events s')"

fun isSignal :: "sweep_event \<Rightarrow> bool" where
  "isSignal (SendResult c result) = True"
| "isSignal (CallNtfnRegCancel reg) = True"
| "isSignal e = False"

definition tooManyAttempts :: Result where
  "tooManyAttempts = \<lparr>ResultErr = Some ErrTooManyAttempts, ResultTx = None\<rparr>"

text \<open>
  A predicate on the events of a run. It reads a list of events from the left, with the
  transactions for which \<open>NotifyPublishTx\<close> has returned nil so far, and holds when
  every call of \<open>PublishTransaction\<close> is for such a transaction.
\<close>

fun recordedBeforePublish :: "wire_MsgTx list \<Rightarrow> sweep_event list \<Rightarrow> bool" where
  "recordedBeforePublish recorded [] = True"
| "recordedBeforePublish recorded (CallNotifyPublishTx tx res # es) =
     recordedBeforePublish (if res = None then tx # recorded else recorded) es"
| "recordedBeforePublish recorded (CallPublishTransaction tx res # es) =
     (tx \<in> set recorded \<and> recordedBeforePublish recorded es)"
| "recordedBeforePublish recorded (e # es) = recordedBeforePublish recorded es"

text \<open>
  The first step of \<open>sweep\<close>, where it does not fail: a cached output script is kept,
  and without one the script that \<open>GenSweepScript\<close> returns is cached.
\<close>

definition scriptReady :: "UtxoSweeperConfig \<Rightarrow> UtxoSweeper \<Rightarrow> UtxoSweeper \<Rightarrow> bool" where
  "scriptReady cfg s s0 \<longleftrightarrow>
     (if currentOutputScript s = None
      then (case GenSweepScript cfg of
              Inl err \<Rightarrow> False
            | Inr pkScript \<Rightarrow>
                s0 = s\<lparr>events := events s @ [CallGenSweepScript],
                       currentOutputScript := pkScript\<rparr>)
      else s0 = s)"

section \<open>Concrete inputs\<close>

text \<open>
  A chain with one block whose only transaction has one output, and a channel id that
  advertises output index 1 of that transaction.
\<close>

definition oneOutputTx :: wire_MsgTx where
  "oneOutputTx = \<lparr>TxIn = [], TxOut = [\<lparr>wire_TxOut.Value = 1000, PkScript = []\<rparr>]\<rparr>"

definition oneTxChain :: BlockChainIO where
  "oneTxChain = \<lparr>GetBlockHash = (\<lambda>n. Inr []),
                  GetBlock = (\<lambda>h. Inr \<lparr>Transactions = [oneOutputTx]\<rparr>),
                  TxHash = (\<lambda>tx. [])\<rparr>"

definition emptyBlockChain :: BlockChainIO where
  "emptyBlockChain = \<lparr>GetBlockHash = (\<lambda>n. Inr []),
                      GetBlock = (\<lambda>h. Inr \<lparr>Transactions = []\<rparr>),
                      TxHash = (\<lambda>tx. [])\<rparr>"

text \<open>
  A router over the in-memory store: channel 7 is live, with a policy of node1 of
  timestamp 5 and funding outpoint \<open>fundingPoint7\<close>; channel 9 is in the zombie index.
  The prune expiry is 1000 and the clock reads 2000 where it is not given.
\<close>

definition fundingPoint7 :: wire_OutPoint where
  "fundingPoint7 = \<lparr>Hash = [7], Index = 0\<rparr>"

definition info7 :: ChannelEdgeInfo where
  "info7 = \<lparr>ChannelEdgeInfo.ChannelID = 7, NodeKey1Bytes = [1], NodeKey2Bytes = [2],
            BitcoinKey1Bytes = [3], BitcoinKey2Bytes = [4], Capacity = 50000,
            ChannelPoint = fundingPoint7\<rparr>"

definition policyAt :: "64 word \<Rightarrow> Time \<Rightarrow> 8 word \<Rightarrow> ChannelEdgePolicy" where
  "policyAt chanID t flags =
     \<lparr>ChannelID = chanID, LastUpdate = t, MessageFlags = 0, ChannelFlags = flags\<rparr>"

definition exampleGraph :: memGraph where
  "exampleGraph =
     \<lparr>liveEdges = [(7, \<lparr>edgeInfo = info7, policy1 = Some (policyAt 7 5 0), policy2 = None\<rparr>)],
      zombieIndex = [9],
      knownNodes = []\<rparr>"

definition exampleConfig :: "memGraph Config" where
  "exampleConfig =
     \<lparr>Graph = memStore,
      Chain = oneTxChain,
      GetUtxo = (\<lambda>op script h. Inl (ErrText ''no utxo'')),
      UpdateFilter = (\<lambda>ps h. None),
      GenMultiSigScript = (\<lambda>k1 k2. Inr (k1 @ k2)),
      WitnessScriptHash = (\<lambda>s. Inr s),
      ChannelPruneExpiry = 1000,
      AssumeChannelValid = False\<rparr>"

definition exampleRouter :: "memGraph ChannelRouter" where
  "exampleRouter = \<lparr>bestHeight = 100, graph = exampleGraph, trace = []\<rparr>"

text \<open>Two blocks: one at height 102, one at height 101 that spends the funding of channel 7.\<close>

definition block102 :: FilteredBlock where
  "block102 = \<lparr>fb_Hash = [102], fb_Height = 102, fb_Transactions = []\<rparr>"

definition block101 :: FilteredBlock where
  "block101 =
     \<lparr>fb_Hash = [101], fb_Height = 101,
      fb_Transactions = [\<lparr>TxIn = [\<lparr>PreviousOutPoint = fundingPoint7\<rparr>], TxOut = []\<rparr>]\<rparr>"

text \<open>
  Payment collaborators whose lifecycle exhausts the route: once with the failure of the
  last attempt recorded, once with none recorded.
\<close>

definition feeInsufficient :: ForwardingError where
  "feeInsufficient = \<lparr>ErrorSource = [2], FailureMessage = 12\<rparr>"

definition exhaustedEnv :: "ForwardingError option \<Rightarrow> PaymentEnv" where
  "exhaustedEnv lastErr =
     \<lparr>NewPaymentSessionForRoute = (\<lambda>rt. 0),
      TotalFees = (\<lambda>rt. 10),
      InitPayment = (\<lambda>h info. None),
      GetBestBlock = Inr ([], 100),
      resumePayment = (\<lambda>p. Inl (NoRouteError lastErr)),
      timeNow = 2000\<rparr>"

definition route7 :: Route where
  "route7 = \<lparr>TotalAmount = 1010, Hops = [7]\<rparr>"



definition exampleRun :: "(Time \<times> ChannelEdgePolicy) list" where
  "exampleRun = [(2000, policyAt 7 5 0), (2000, policyAt 7 8 0), (2000, policyAt 7 6 0)]"

definition zombieLiveStore :: "ChannelEdgePolicy list ChannelGraph" where
  "zombieLiveStore =
     \<lparr>HasLightningNode = (\<lambda>g v. (0, False, None)),
      AddLightningNode = (\<lambda>g n. Inr g),
      HasChannelEdge = (\<lambda>g chanID.
        \<lparr>edge1Timestamp = 5, edge2Timestamp = 0, edgeExists = True, isZombie = True,
         hasEdgeErr = None\<rparr>),
      AddChannelEdge = (\<lambda>g info. Inr g),
      UpdateEdgePolicy = (\<lambda>g edge. Inr (g @ [edge])),
      PruneGraph = (\<lambda>g spent h height. Inr (g, []))\<rparr>"

definition zombieLiveConfig :: "ChannelEdgePolicy list Config" where
  "zombieLiveConfig =
     \<lparr>Graph = zombieLiveStore,
      Chain = oneTxChain,
      GetUtxo = (\<lambda>op script h. Inl (ErrText ''no utxo'')),
      UpdateFilter = (\<lambda>ps h. None),
      GenMultiSigScript = (\<lambda>k1 k2. Inr (k1 @ k2)),
      WitnessScriptHash = (\<lambda>s. Inr s),
      ChannelPruneExpiry = 1000,
      AssumeChannelValid = False\<rparr>"

definition zombieLiveRouter :: "ChannelEdgePolicy list ChannelRouter" where
  "zombieLiveRouter = \<lparr>bestHeight = 100, graph = [], trace = []\<rparr>"

text \<open>
  A sweeper configuration with the defaults of the source (maximum fee rate 2500000, bucket
  size 10, 10 attempts, \<open>DefaultNextAttemptDeltaFunc\<close>), whose fee preference translates
  to its absolute fee rate, whose sweep transaction spends the outpoints of the inputs it
  is given, and whose store and publisher return nil unless said otherwise.
\<close>

definition spendAll :: "Input list \<Rightarrow> wire_MsgTx" where
  "spendAll ins =
     \<lparr>TxIn = concat (map (\<lambda>i. case OutPoint i of
                                 None \<Rightarrow> []
                               | Some op \<Rightarrow> [\<lparr>PreviousOutPoint = op\<rparr>]) ins),
      TxOut = []\<rparr>"

definition sweeperConfig :: "error option \<Rightarrow> UtxoSweeperConfig" where
  "sweeperConfig publishResult =
     \<lparr>GenSweepScript = Inr (Some [81]),
      DetermineFeePerKw = (\<lambda>pref. Inr (FeeRate pref)),
      createSweepTx = (\<lambda>ins script height feeRate. Inr (spendAll ins)),
      NotifyPublishTx = (\<lambda>tx. None),
      PublishTransaction = (\<lambda>tx. publishResult),
      MaxInputsPerTx = 100,
      MaxSweepAttempts = 10,
      NextAttemptDeltaFunc = DefaultNextAttemptDeltaFunc,
      MaxFeeRate = 2500000,
      FeeRateBucketSize = 10\<rparr>"

definition opA :: wire_OutPoint where
  "opA = \<lparr>Hash = [1], Index = 0\<rparr>"

definition opB :: wire_OutPoint where
  "opB = \<lparr>Hash = [2], Index = 0\<rparr>"

definition inputOf :: "wire_OutPoint \<Rightarrow> Input" where
  "inputOf op =
     \<lparr>OutPoint = Some op,
      SignDesc = Some \<lparr>Output = \<lparr>wire_TxOut.Value = 100000, PkScript = []\<rparr>\<rparr>,
      WitnessType = 0,
      HeightHint = 90\<rparr>"

definition pendingOf :: "wire_OutPoint \<Rightarrow> ResultChan list \<Rightarrow> int \<Rightarrow> SatPerKWeight \<Rightarrow> pendingInput" where
  "pendingOf op chans attempts rate =
     \<lparr>listeners = chans,
      input = inputOf op,
      ntfnRegCancel = Some 0,
      minPublishHeight = 100,
      publishAttempts = attempts,
      feePreference = \<lparr>ConfTarget = 0, FeeRate = rate\<rparr>,
      lastFeeRate = 0\<rparr>"

definition sweeperWith :: "SatPerKWeight \<Rightarrow> pendingInputs \<Rightarrow> UtxoSweeper" where
  "sweeperWith relay pending =
     \<lparr>pendingInputs = pending,
      currentOutputScript = None,
      relayFeeRate = relay,
      newInputs = [],
      chansMade = 2,
      rng = \<lparr>draws = (\<lambda>k. 5), drawn = 0\<rparr>,
      events = []\<rparr>"

section \<open>Properties of fetchChanPoint\<close>

lemma fetchChanPoint_txindex_checked:
  assumes "GetBlockHash chain (uint (BlockHeight chanID)) = Inr h"
    and "GetBlock chain h = Inr b"
    and "Transactions b \<noteq> []"
    and "length (Transactions b) < 2 ^ 32"
    and "length (Transactions b) \<le> unat (TxIndex chanID)"
  shows "fetchChanPoint chain chanID = Err (ErrText ''tx_index is out of range'')"
proof -
  let ?n = "length (Transactions b)"
  have pos: "1 \<le> ?n" using assms(3) by (cases "Transactions b") simp_all
  have un: "unat (word_of_nat ?n :: 32 word) = ?n"
    using assms(4) by (simp add: unat_of_nat)
  have le: "(1 :: 32 word) \<le> word_of_nat ?n"
    unfolding word_le_nat_alt un using pos by simp
  have "unat (word_of_nat ?n - 1 :: 32 word) = ?n - 1"
    using unat_sub [OF le] un by simp
  then have "word_of_nat ?n - 1 < TxIndex chanID"
    unfolding word_less_nat_alt using assms(5) pos by linarith
  then show ?thesis
    using assms(1,2) by (simp add: fetchChanPoint_def Let_def)
qed

text \<open>
  C9. The bound on the transaction index is checked, the bound on the output index is
  not: at output index 1 of a transaction with a single output the access
  \<open>fundingTx.TxOut[chanID.TxPosition]\<close> is out of range and the call panics instead of
  returning an error.
\<close>

theorem fetchChanPoint_txposition_panics:
  "fetchChanPoint oneTxChain \<lparr>BlockHeight = 100, TxIndex = 0, TxPosition = 1\<rparr> = Panic"
  by (simp add: fetchChanPoint_def oneTxChain_def oneOutputTx_def)

lemma fetchChanPoint_empty_block_panics:
  "fetchChanPoint emptyBlockChain \<lparr>BlockHeight = 100, TxIndex = 0, TxPosition = 0\<rparr> = Panic"
  by (simp add: fetchChanPoint_def emptyBlockChain_def)

section \<open>Properties of the new-block arm of networkHandler\<close>

text \<open>
  C4. A new-block notification whose height is not \<open>bestHeight + 1\<close> (the addition of
  the source, on \<open>uint32\<close>) leaves the router's state as it was: the best height is
  unchanged and neither \<open>PruneGraph\<close> nor a topology notification is added to the calls.
  A notification at \<open>bestHeight + 1\<close> advances the best height to it and calls
  \<open>PruneGraph\<close> with the outpoints spent in the block.
\<close>

theorem newBlock_only_next_height:
  "(fb_Height chainUpdate \<noteq> bestHeight r + 1 \<longrightarrow>
      networkHandler_newBlock cfg r chainUpdate = r) \<and>
   (fb_Height chainUpdate = bestHeight r + 1 \<longrightarrow>
      bestHeight (networkHandler_newBlock cfg r chainUpdate) = bestHeight r + 1 \<and>
      (\<exists>rest. trace (networkHandler_newBlock cfg r chainUpdate) =
         trace r @
         CallPruneGraph
           (concat (map (\<lambda>tx. map PreviousOutPoint (TxIn tx)) (fb_Transactions chainUpdate)))
           (fb_Hash chainUpdate) (fb_Height chainUpdate) # rest))"
  by (auto simp: networkHandler_newBlock_def Let_def split: sum.splits prod.splits)

theorem newBlock_only_next_height_witness:
  "fb_Height block102 \<noteq> bestHeight exampleRouter + 1 \<and>
   networkHandler_newBlock exampleConfig exampleRouter block102 = exampleRouter \<and>
   fb_Height block101 = bestHeight exampleRouter + 1 \<and>
   bestHeight (networkHandler_newBlock exampleConfig exampleRouter block101) = 101 \<and>
   trace (networkHandler_newBlock exampleConfig exampleRouter block101) =
     [CallPruneGraph [fundingPoint7] [101] 101, NotifyClosedChannels 101 [info7]]"
  using newBlock_only_next_height [of block102 exampleRouter exampleConfig]
    newBlock_only_next_height [of block101 exampleRouter exampleConfig]
  by (simp add: networkHandler_newBlock_def block102_def block101_def exampleRouter_def
      exampleConfig_def memStore_def mem_PruneGraph_def exampleGraph_def info7_def
      fundingPoint7_def)

section \<open>Properties of SendToRoute\<close>

text \<open>
  C8. When the control tower accepts the payment and the payment fails with the no-route
  error of the lifecycle, \<open>SendToRoute\<close> returns the forwarding error recorded in it,
  or the error "failure message missing" when none is recorded; what it returns is never
  a no-route error.
\<close>

theorem SendToRoute_structured_error:
  assumes "InitPayment env hash
             \<lparr>PaymentCreationInfo.PaymentHash = hash,
              Value = TotalAmount route - TotalFees env route,
              CreationDate = timeNow env,
              PaymentRequest = None\<rparr> = None"
    and "sendPayment env None
           \<lparr>PaymentHash = hash, FinalCLTVDelta = 0, PayAttemptTimeout = 0\<rparr>
           (NewPaymentSessionForRoute env route) = Inl (NoRouteError lastErr)"
  shows "SendToRoute env hash route =
           Inl (case lastErr of
                  None \<Rightarrow> ErrText ''failure message missing''
                | Some fErr \<Rightarrow> ForwardingErr fErr) \<and>
         (\<forall>e. SendToRoute env hash route \<noteq> Inl (NoRouteError e))"
  using assms by (simp add: SendToRoute_def Let_def split: option.splits)

theorem SendToRoute_structured_error_witness:
  "InitPayment (exhaustedEnv (Some feeInsufficient)) [1]
     \<lparr>PaymentCreationInfo.PaymentHash = [1],
      Value = TotalAmount route7 - TotalFees (exhaustedEnv (Some feeInsufficient)) route7,
      CreationDate = timeNow (exhaustedEnv (Some feeInsufficient)),
      PaymentRequest = None\<rparr> = None \<and>
   sendPayment (exhaustedEnv (Some feeInsufficient)) None
     \<lparr>PaymentHash = [1], FinalCLTVDelta = 0, PayAttemptTimeout = 0\<rparr>
     (NewPaymentSessionForRoute (exhaustedEnv (Some feeInsufficient)) route7) =
     Inl (NoRouteError (Some feeInsufficient)) \<and>
   SendToRoute (exhaustedEnv (Some feeInsufficient)) [1] route7 =
     Inl (ForwardingErr feeInsufficient) \<and>
   SendToRoute (exhaustedEnv None) [1] route7 = Inl (ErrText ''failure message missing'')"
proof -
  have i1: "InitPayment (exhaustedEnv x) [1]
     \<lparr>PaymentCreationInfo.PaymentHash = [1],
      Value = TotalAmount route7 - TotalFees (exhaustedEnv x) route7,
      CreationDate = timeNow (exhaustedEnv x),
      PaymentRequest = None\<rparr> = None" for x
    by (simp add: exhaustedEnv_def)
  have s1: "sendPayment (exhaustedEnv x) None
     \<lparr>PaymentHash = [1], FinalCLTVDelta = 0, PayAttemptTimeout = 0\<rparr>
     (NewPaymentSessionForRoute (exhaustedEnv x) route7) = Inl (NoRouteError x)" for x
    by (simp add: sendPayment_def exhaustedEnv_def)
  show ?thesis
    using SendToRoute_structured_error [OF i1 s1, of "Some feeInsufficient"]
      SendToRoute_structured_error [OF i1 s1, of None] i1 s1
    by simp
qed

section \<open>Properties of processUpdate on channel policies\<close>

lemma direction_bit_cases:
  "(x :: 8 word) AND ChanUpdateDirection = 0 \<or> x AND ChanUpdateDirection = 1"
  unfolding ChanUpdateDirection_def
  by (metis and_one_eq even_iff_mod_2_eq_zero odd_iff_mod_2_eq_one)

lemma isOutdated_iff:
  "isOutdated res \<longleftrightarrow> (\<exists>m. res = Returned (Some (RouterError ErrOutdated m)))"
  by (cases res rule: isOutdated.cases) simp_all



lemma example_HasChannelEdge_7:
  "HasChannelEdge (Graph exampleConfig) (graph exampleRouter) 7 =
     \<lparr>edge1Timestamp = 5, edge2Timestamp = 0, edgeExists = True, isZombie = False,
      hasEdgeErr = None\<rparr>"
  by (simp add: exampleConfig_def exampleRouter_def memStore_def mem_HasChannelEdge_def
      exampleGraph_def policyTime_def policyAt_def)

lemma example_HasChannelEdge_9:
  "HasChannelEdge (Graph exampleConfig) (graph exampleRouter) 9 =
     \<lparr>edge1Timestamp = 0, edge2Timestamp = 0, edgeExists = False, isZombie = True,
      hasEdgeErr = None\<rparr>"
  by (simp add: exampleConfig_def exampleRouter_def memStore_def mem_HasChannelEdge_def
      exampleGraph_def)

lemma example_expiry: "ChannelPruneExpiry exampleConfig = 1000"
  by (simp add: exampleConfig_def)




text \<open>
  C3, as stated, fails: channel 9 is a zombie and an update of timestamp 1500 is within
  the prune expiry at time 2000, yet \<open>processUpdate\<close> rejects it, since the store
  reports a zombie as not existing; nothing is written to the graph.
\<close>

theorem processUpdate_fresh_zombie_counterexample:
  "isZombie (HasChannelEdge (Graph exampleConfig) (graph exampleRouter) 9) \<and>
   \<not> 2000 - LastUpdate (policyAt 9 1500 0) > ChannelPruneExpiry exampleConfig \<and>
   processUpdate exampleConfig 2000 exampleRouter (EdgePolicyMsg (policyAt 9 1500 0)) =
     (Returned (Some (RouterError ErrIgnored ''ignoring update for unknown chan_id'')),
      exampleRouter)"
  by (simp add: example_HasChannelEdge_9 example_expiry policyAt_def)

text \<open>
  C3, amended. An update for a channel the store reports as not existing is rejected, and
  so is an update older than \<open>ChannelPruneExpiry\<close> for a channel reported as a zombie;
  both leave the router's state as it was. An update within \<open>ChannelPruneExpiry\<close> for a
  zombie passes the zombie check only: it is rejected as for an unknown channel when the
  store reports the channel as not existing, and it is accepted exactly when the channel
  is reported as existing, the update is strictly newer than the stored policy of its
  direction and \<open>UpdateEdgePolicy\<close> succeeds, whose result is then the graph.
\<close>

theorem processUpdate_policy_zombie:
  assumes "res = HasChannelEdge (Graph cfg) (graph r) (ChannelID msg)"
  shows "(\<not> edgeExists res \<longrightarrow>
            (\<exists>e. processUpdate cfg now r (EdgePolicyMsg msg) = (Returned (Some e), r))) \<and>
         (isZombie res \<and> now - LastUpdate msg > ChannelPruneExpiry cfg \<longrightarrow>
            (\<exists>e. processUpdate cfg now r (EdgePolicyMsg msg) = (Returned (Some e), r))) \<and>
         (isZombie res \<and> \<not> now - LastUpdate msg > ChannelPruneExpiry cfg \<and>
          (hasEdgeErr res = None \<or> hasEdgeErr res = Some ErrGraphNoEdgesFound) \<longrightarrow>
            (\<not> edgeExists res \<longrightarrow>
               processUpdate cfg now r (EdgePolicyMsg msg) =
                 (Returned (Some (RouterError ErrIgnored ''ignoring update for unknown chan_id'')), r)) \<and>
            (fst (processUpdate cfg now r (EdgePolicyMsg msg)) = Returned None \<longleftrightarrow>
               edgeExists res \<and>
               storedTimestamp cfg r (ChannelID msg) (policyDirection msg) < LastUpdate msg \<and>
               (\<exists>g'. UpdateEdgePolicy (Graph cfg) (graph r) msg = Inr g')) \<and>
            (\<forall>g'. fst (processUpdate cfg now r (EdgePolicyMsg msg)) = Returned None \<and>
                  UpdateEdgePolicy (Graph cfg) (graph r) msg = Inr g' \<longrightarrow>
                  snd (processUpdate cfg now r (EdgePolicyMsg msg)) =
                    r\<lparr>graph := g', trace := trace r @ [CallUpdateEdgePolicy msg]\<rparr>))"
  using assms direction_bit_cases [of "ChannelFlags msg"]
  by (auto simp: Let_def storedTimestamp_def policyDirection_def split: sum.splits)

theorem processUpdate_policy_zombie_witness:
  "\<not> edgeExists (HasChannelEdge (Graph exampleConfig) (graph exampleRouter) 9) \<and>
   isZombie (HasChannelEdge (Graph exampleConfig) (graph exampleRouter) 9) \<and>
   2000 - LastUpdate (policyAt 9 500 0) > ChannelPruneExpiry exampleConfig \<and>
   processUpdate exampleConfig 2000 exampleRouter (EdgePolicyMsg (policyAt 9 500 0)) =
     (Returned (Some (RouterError ErrIgnored ''ignoring stale update for zombie chan_id'')),
      exampleRouter) \<and>
   \<not> 2000 - LastUpdate (policyAt 9 1500 0) > ChannelPruneExpiry exampleConfig \<and>
   fst (processUpdate exampleConfig 2000 exampleRouter (EdgePolicyMsg (policyAt 9 1500 0))) \<noteq>
     Returned None \<and>
   isZombie (HasChannelEdge (Graph zombieLiveConfig) (graph zombieLiveRouter) 9) \<and>
   edgeExists (HasChannelEdge (Graph zombieLiveConfig) (graph zombieLiveRouter) 9) \<and>
   processUpdate zombieLiveConfig 2000 zombieLiveRouter (EdgePolicyMsg (policyAt 9 1500 0)) =
     (Returned None,
      zombieLiveRouter\<lparr>graph := [policyAt 9 1500 0],
                        trace := [CallUpdateEdgePolicy (policyAt 9 1500 0)]\<rparr>)"
  using
    processUpdate_policy_zombie [OF refl, of exampleConfig exampleRouter "policyAt 9 500 0" 2000]
    processUpdate_policy_zombie [OF refl, of exampleConfig exampleRouter "policyAt 9 1500 0" 2000]
    processUpdate_policy_zombie [OF refl, of zombieLiveConfig zombieLiveRouter "policyAt 9 1500 0" 2000]
  by (simp add: example_HasChannelEdge_9 example_expiry policyAt_def zombieLiveConfig_def
      zombieLiveStore_def zombieLiveRouter_def ChanUpdateDirection_def)

section \<open>Properties of runs of policy updates\<close>

lemma policy_step:
  assumes "processUpdate cfg now r (EdgePolicyMsg msg) = (res, r1)"
  shows "(res = Returned None \<and>
          UpdateEdgePolicy (Graph cfg) (graph r) msg = Inr (graph r1) \<and>
          storedTimestamp cfg r (ChannelID msg) (policyDirection msg) < LastUpdate msg) \<or>
         (res \<noteq> Returned None \<and> graph r1 = graph r \<and>
          (isOutdated res \<longrightarrow>
             r1 = r \<and>
             LastUpdate msg \<le> storedTimestamp cfg r (ChannelID msg) (policyDirection msg)))"
  using assms direction_bit_cases [of "ChannelFlags msg"]
  by (auto simp: Let_def storedTimestamp_def policyDirection_def
      split: if_splits sum.splits)

lemma policy_outdated_when_not_newer:
  assumes "res = HasChannelEdge (Graph cfg) (graph r) (ChannelID msg)"
    and "hasEdgeErr res = None \<or> hasEdgeErr res = Some ErrGraphNoEdgesFound"
    and "\<not> (isZombie res \<and> now - LastUpdate msg > ChannelPruneExpiry cfg)"
    and "edgeExists res"
    and "\<not> storedTimestamp cfg r (ChannelID msg) (policyDirection msg) < LastUpdate msg"
  shows "processUpdate cfg now r (EdgePolicyMsg msg) =
           (Returned (Some (RouterError ErrOutdated ''Ignoring outdated update for known chan_id'')), r)"
  using assms direction_bit_cases [of "ChannelFlags msg"]
  by (auto simp: Let_def storedTimestamp_def policyDirection_def)

lemma stored_after_update:
  assumes "UpdateEdgePolicy_replaces G" and "Graph cfg = G"
    and "UpdateEdgePolicy G (graph r) msg = Inr (graph r1)"
  shows "storedTimestamp cfg r1 chanID d =
           (if chanID = ChannelID msg \<and> (d = 0 \<longleftrightarrow> policyDirection msg = 0)
            then LastUpdate msg else storedTimestamp cfg r chanID d)"
  using assms unfolding UpdateEdgePolicy_replaces_def storedTimestamp_def Let_def
  by (cases "d = 0") auto

lemma run_invariant:
  assumes law: "UpdateEdgePolicy_replaces (Graph cfg)"
  shows "processPolicyUpdates cfg r msgs = (entries, r') \<Longrightarrow>
         storedTimestamp cfg r chanID d \<le> storedTimestamp cfg r' chanID d \<and>
         (\<forall>edge \<in> set (appliedUpdates chanID d entries).
            storedTimestamp cfg r chanID d < LastUpdate edge \<and>
            LastUpdate edge \<le> storedTimestamp cfg r' chanID d) \<and>
         (\<forall>edge \<in> set (outdatedUpdates chanID d entries).
            LastUpdate edge \<le> storedTimestamp cfg r' chanID d) \<and>
         sorted_wrt (<) (map LastUpdate (appliedUpdates chanID d entries))"
proof (induction msgs arbitrary: r entries)
  case Nil
  then show ?case by (simp add: appliedUpdates_def outdatedUpdates_def)
next
  case (Cons a msgs)
  obtain now msg where a: "a = (now, msg)" by (cases a)
  obtain res r1 where step: "processUpdate cfg now r (EdgePolicyMsg msg) = (res, r1)"
    by (cases "processUpdate cfg now r (EdgePolicyMsg msg)")
  obtain rest where rest: "processPolicyUpdates cfg r1 msgs = (rest, r')"
    and entries: "entries = (msg, res) # rest"
    using Cons.prems a step by (auto split: prod.splits)
  let ?T = "\<lambda>x. storedTimestamp cfg x chanID d"
  note IH = Cons.IH [OF rest]
  have mono: "?T r1 \<le> ?T r'" using IH by simp
  have app: "\<forall>edge \<in> set (appliedUpdates chanID d rest).
               ?T r1 < LastUpdate edge \<and> LastUpdate edge \<le> ?T r'"
    using IH by simp
  have outd: "\<forall>edge \<in> set (outdatedUpdates chanID d rest). LastUpdate edge \<le> ?T r'"
    using IH by simp
  have srt: "sorted_wrt (<) (map LastUpdate (appliedUpdates chanID d rest))"
    using IH by simp
  from policy_step [OF step] show ?case
  proof
    assume ok: "res = Returned None \<and>
          UpdateEdgePolicy (Graph cfg) (graph r) msg = Inr (graph r1) \<and>
          storedTimestamp cfg r (ChannelID msg) (policyDirection msg) < LastUpdate msg"
    have after: "?T r1 =
           (if chanID = ChannelID msg \<and> (d = 0 \<longleftrightarrow> policyDirection msg = 0)
            then LastUpdate msg else ?T r)"
      using stored_after_update [OF law refl] ok by blast
    show ?thesis
    proof (cases "ChannelID msg = chanID \<and> policyDirection msg = d")
      case True
      then have r1T: "?T r1 = LastUpdate msg" using after by auto
      have lt: "?T r < LastUpdate msg" using ok True by auto
      have hd: "appliedUpdates chanID d entries = msg # appliedUpdates chanID d rest"
        using True ok entries by (simp add: appliedUpdates_def)
      have od: "outdatedUpdates chanID d entries = outdatedUpdates chanID d rest"
        using ok entries by (simp add: outdatedUpdates_def)
      show ?thesis
        unfolding hd od using r1T lt mono app outd srt by (auto simp: less_le_trans)
    next
      case False
      have dcases: "policyDirection msg = 0 \<or> policyDirection msg = 1"
        using direction_bit_cases [of "ChannelFlags msg"] by (simp add: policyDirection_def)
      have r1T: "?T r \<le> ?T r1"
        using after ok False dcases by (auto simp: storedTimestamp_def Let_def)
      have hd: "appliedUpdates chanID d entries = appliedUpdates chanID d rest"
        using False entries by (auto simp: appliedUpdates_def)
      have od: "outdatedUpdates chanID d entries = outdatedUpdates chanID d rest"
        using ok entries by (simp add: outdatedUpdates_def)
      show ?thesis
        unfolding hd od using r1T mono app outd srt by auto
    qed
  next
    assume no: "res \<noteq> Returned None \<and> graph r1 = graph r \<and>
          (isOutdated res \<longrightarrow>
             r1 = r \<and>
             LastUpdate msg \<le> storedTimestamp cfg r (ChannelID msg) (policyDirection msg))"
    have same: "?T r1 = ?T r" using no by (simp add: storedTimestamp_def)
    have hd: "appliedUpdates chanID d entries = appliedUpdates chanID d rest"
      using no entries by (simp add: appliedUpdates_def)
    have od: "set (outdatedUpdates chanID d entries) \<subseteq>
                insert msg (set (outdatedUpdates chanID d rest))"
      using entries by (auto simp: outdatedUpdates_def)
    have msgle: "msg \<in> set (outdatedUpdates chanID d entries) \<Longrightarrow>
                 msg \<notin> set (outdatedUpdates chanID d rest) \<Longrightarrow> LastUpdate msg \<le> ?T r'"
    proof -
      assume "msg \<in> set (outdatedUpdates chanID d entries)"
        and "msg \<notin> set (outdatedUpdates chanID d rest)"
      then have "isOutdated res \<and> ChannelID msg = chanID \<and> policyDirection msg = d"
        using entries by (auto simp: outdatedUpdates_def)
      then have "LastUpdate msg \<le> ?T r" using no by auto
      then show ?thesis using same mono by simp
    qed
    show ?thesis
      unfolding hd using same mono app outd srt od msgle by auto
  qed
qed

lemma memStore_replaces: "UpdateEdgePolicy_replaces memStore"
  unfolding UpdateEdgePolicy_replaces_def
  by (auto simp: memStore_def mem_UpdateEdgePolicy_def mem_HasChannelEdge_def update_conv'
      policyTime_def split: option.splits if_splits)

text \<open>
  C5, as stated, fails on its last part: an update whose timestamp equals the stored one is
  rejected as outdated, and the stored timestamp is then not strictly greater than the
  rejected update's.
\<close>

theorem outdated_equal_timestamp_counterexample:
  "processUpdate exampleConfig 2000 exampleRouter (EdgePolicyMsg (policyAt 7 5 0)) =
     (Returned (Some (RouterError ErrOutdated ''Ignoring outdated update for known chan_id'')),
      exampleRouter) \<and>
   \<not> LastUpdate (policyAt 7 5 0) < storedTimestamp exampleConfig exampleRouter 7 0"
  by (simp add: example_HasChannelEdge_7 example_expiry policyAt_def storedTimestamp_def
      ChanUpdateDirection_def)

text \<open>
  C5, amended. Let a successful \<open>UpdateEdgePolicy\<close> replace the timestamp the store
  reports for the policy's channel id and direction and no other. In a run of policy
  updates through \<open>processUpdate\<close>, for each channel id and direction: the applied
  updates have strictly increasing timestamps; every update rejected as outdated, and
  every applied one, has a timestamp at most the timestamp stored at the end of the run
  (at most, not below: an update with the stored timestamp is rejected). An update that is
  rejected as outdated leaves the router's state as it was, and an update for an existing
  channel that passes the zombie check and is not strictly newer than the stored policy
  of its direction is rejected as outdated.
\<close>

theorem policy_timestamps_increase:
  assumes "UpdateEdgePolicy_replaces (Graph cfg)"
    and "processPolicyUpdates cfg r msgs = (entries, r')"
  shows "sorted_wrt (<) (map LastUpdate (appliedUpdates chanID d entries)) \<and>
         (\<forall>edge \<in> set (outdatedUpdates chanID d entries).
            LastUpdate edge \<le> storedTimestamp cfg r' chanID d) \<and>
         (\<forall>edge \<in> set (appliedUpdates chanID d entries).
            LastUpdate edge \<le> storedTimestamp cfg r' chanID d) \<and>
         (\<forall>now msg. isOutdated (fst (processUpdate cfg now r (EdgePolicyMsg msg))) \<longrightarrow>
            snd (processUpdate cfg now r (EdgePolicyMsg msg)) = r \<and>
            LastUpdate msg \<le> storedTimestamp cfg r (ChannelID msg) (policyDirection msg)) \<and>
         (\<forall>now msg res. res = HasChannelEdge (Graph cfg) (graph r) (ChannelID msg) \<and>
            (hasEdgeErr res = None \<or> hasEdgeErr res = Some ErrGraphNoEdgesFound) \<and>
            \<not> (isZombie res \<and> now - LastUpdate msg > ChannelPruneExpiry cfg) \<and>
            edgeExists res \<and>
            \<not> storedTimestamp cfg r (ChannelID msg) (policyDirection msg) < LastUpdate msg \<longrightarrow>
            isOutdated (fst (processUpdate cfg now r (EdgePolicyMsg msg))))"
proof -
  have run: "sorted_wrt (<) (map LastUpdate (appliedUpdates chanID d entries)) \<and>
         (\<forall>edge \<in> set (outdatedUpdates chanID d entries).
            LastUpdate edge \<le> storedTimestamp cfg r' chanID d) \<and>
         (\<forall>edge \<in> set (appliedUpdates chanID d entries).
            LastUpdate edge \<le> storedTimestamp cfg r' chanID d)"
    using run_invariant [OF assms(1) assms(2), of chanID d] by blast
  have step: "snd (processUpdate cfg now r (EdgePolicyMsg msg)) = r \<and>
            LastUpdate msg \<le> storedTimestamp cfg r (ChannelID msg) (policyDirection msg)"
    if "isOutdated (fst (processUpdate cfg now r (EdgePolicyMsg msg)))" for now msg
    using policy_step [OF surjective_pairing, of cfg now r msg] that by auto
  have rej: "isOutdated (fst (processUpdate cfg now r (EdgePolicyMsg msg)))"
    if "res = HasChannelEdge (Graph cfg) (graph r) (ChannelID msg)"
      "hasEdgeErr res = None \<or> hasEdgeErr res = Some ErrGraphNoEdgesFound"
      "\<not> (isZombie res \<and> now - LastUpdate msg > ChannelPruneExpiry cfg)"
      "edgeExists res"
      "\<not> storedTimestamp cfg r (ChannelID msg) (policyDirection msg) < LastUpdate msg"
    for now msg res
    using policy_outdated_when_not_newer [OF that] by simp
  show ?thesis using run step rej by blast
qed

lemma exampleRun_entries:
  "processPolicyUpdates exampleConfig exampleRouter exampleRun =
     ([(policyAt 7 5 0,
        Returned (Some (RouterError ErrOutdated ''Ignoring outdated update for known chan_id''))),
       (policyAt 7 8 0, Returned None),
       (policyAt 7 6 0,
        Returned (Some (RouterError ErrOutdated ''Ignoring outdated update for known chan_id'')))],
      exampleRouter
        \<lparr>graph := exampleGraph
           \<lparr>liveEdges := [(7, \<lparr>edgeInfo = info7, policy1 = Some (policyAt 7 8 0),
                               policy2 = None\<rparr>)]\<rparr>,
         trace := [CallUpdateEdgePolicy (policyAt 7 8 0)]\<rparr>)"
  by (simp add: exampleRun_def exampleConfig_def exampleRouter_def memStore_def
      mem_HasChannelEdge_def mem_UpdateEdgePolicy_def exampleGraph_def policyTime_def
      policyAt_def policyDirection_def ChanUpdateDirection_def)

theorem policy_timestamps_increase_witness:
  "UpdateEdgePolicy_replaces (Graph exampleConfig) \<and>
   appliedUpdates 7 0 (fst (processPolicyUpdates exampleConfig exampleRouter exampleRun)) =
     [policyAt 7 8 0] \<and>
   outdatedUpdates 7 0 (fst (processPolicyUpdates exampleConfig exampleRouter exampleRun)) =
     [policyAt 7 5 0, policyAt 7 6 0] \<and>
   storedTimestamp exampleConfig
     (snd (processPolicyUpdates exampleConfig exampleRouter exampleRun)) 7 0 = 8 \<and>
   sorted_wrt (<) (map LastUpdate
     (appliedUpdates 7 0 (fst (processPolicyUpdates exampleConfig exampleRouter exampleRun))))"
proof -
  have law: "UpdateEdgePolicy_replaces (Graph exampleConfig)"
    using memStore_replaces by (simp add: exampleConfig_def)
  have a: "appliedUpdates 7 0 (fst (processPolicyUpdates exampleConfig exampleRouter exampleRun)) =
     [policyAt 7 8 0]"
    by (simp add: exampleRun_entries appliedUpdates_def policyAt_def policyDirection_def
        ChanUpdateDirection_def)
  have b: "outdatedUpdates 7 0 (fst (processPolicyUpdates exampleConfig exampleRouter exampleRun)) =
     [policyAt 7 5 0, policyAt 7 6 0]"
    by (simp add: exampleRun_entries outdatedUpdates_def policyAt_def policyDirection_def
        ChanUpdateDirection_def)
  have c: "storedTimestamp exampleConfig
     (snd (processPolicyUpdates exampleConfig exampleRouter exampleRun)) 7 0 = 8"
    unfolding exampleRun_entries
    by (simp add: storedTimestamp_def exampleConfig_def exampleRouter_def
        memStore_def mem_HasChannelEdge_def exampleGraph_def policyTime_def policyAt_def)
  show ?thesis
    using policy_timestamps_increase [where cfg = exampleConfig and r = exampleRouter
          and msgs = exampleRun and chanID = 7 and d = 0, OF law surjective_pairing]
      law a b c
    by simp
qed

section \<open>Properties of SweepInput\<close>

text \<open>
  C10. \<open>SweepInput\<close> returns an error and leaves the sweeper as it was (no pending
  input, no listener, no message to the main loop) when the input is nil, its outpoint or
  sign descriptor is nil, the fee preference cannot be translated, or it translates to a
  fee rate below the relay fee rate or above \<open>MaxFeeRate\<close>. A message is delivered to
  the main loop only for an input that passes all of these checks, and \<open>SweepInput\<close>
  never changes the pending inputs itself.
\<close>

theorem SweepInput_validates:
  "((inp = None \<or> (\<exists>i. inp = Some i \<and> (OutPoint i = None \<or> SignDesc i = None)) \<or>
     (\<exists>err. DetermineFeePerKw cfg pref = Inl err) \<or>
     (\<exists>rate. DetermineFeePerKw cfg pref = Inr rate \<and>
        (rate < relayFeeRate s \<or> rate > MaxFeeRate cfg))) \<longrightarrow>
      (\<exists>err. SweepInput cfg s inp pref arm = (Inl err, s))) \<and>
   (newInputs (snd (SweepInput cfg s inp pref arm)) \<noteq> newInputs s \<longrightarrow>
      (\<exists>i op sd rate.
         inp = Some i \<and> OutPoint i = Some op \<and> SignDesc i = Some sd \<and>
         DetermineFeePerKw cfg pref = Inr rate \<and>
         relayFeeRate s \<le> rate \<and> rate \<le> MaxFeeRate cfg \<and>
         newInputs (snd (SweepInput cfg s inp pref arm)) =
           newInputs s @ [\<lparr>msgInput = i, msgFeePreference = pref, resultChan = chansMade s\<rparr>] \<and>
         fst (SweepInput cfg s inp pref arm) = Inr (chansMade s))) \<and>
   pendingInputs (snd (SweepInput cfg s inp pref arm)) = pendingInputs s \<and>
   events (snd (SweepInput cfg s inp pref arm)) = events s"
  by (cases inp; cases arm; cases "DetermineFeePerKw cfg pref")
    (auto simp: SweepInput_def feeRateForPreference_def Let_def)

theorem SweepInput_validates_witness:
  "SweepInput (sweeperConfig None) (sweeperWith 250 []) None
     \<lparr>ConfTarget = 0, FeeRate = 1000\<rparr> SendNewInputs =
     (Inl (ErrText ''nil input received''), sweeperWith 250 []) \<and>
   DetermineFeePerKw (sweeperConfig None) \<lparr>ConfTarget = 0, FeeRate = 100\<rparr> = Inr 100 \<and>
   100 < relayFeeRate (sweeperWith 250 []) \<and>
   SweepInput (sweeperConfig None) (sweeperWith 250 []) (Some (inputOf opA))
     \<lparr>ConfTarget = 0, FeeRate = 100\<rparr> SendNewInputs =
     (Inl (ErrText ''fee preference resulted in invalid fee rate, mininum''),
      sweeperWith 250 []) \<and>
   SweepInput (sweeperConfig None) (sweeperWith 250 []) (Some (inputOf opA))
     \<lparr>ConfTarget = 0, FeeRate = 1000\<rparr> SendNewInputs =
     (Inr 2,
      (sweeperWith 250 [])
        \<lparr>chansMade := 3,
         newInputs := [\<lparr>msgInput = inputOf opA,
                        msgFeePreference = \<lparr>ConfTarget = 0, FeeRate = 1000\<rparr>,
                        resultChan = 2\<rparr>]\<rparr>)"
  using
    SweepInput_validates [of None "sweeperConfig None" "\<lparr>ConfTarget = 0, FeeRate = 1000\<rparr>"
      "sweeperWith 250 []" SendNewInputs]
    SweepInput_validates [of "Some (inputOf opA)" "sweeperConfig None"
      "\<lparr>ConfTarget = 0, FeeRate = 100\<rparr>" "sweeperWith 250 []" SendNewInputs]
    SweepInput_validates [of "Some (inputOf opA)" "sweeperConfig None"
      "\<lparr>ConfTarget = 0, FeeRate = 1000\<rparr>" "sweeperWith 250 []" SendNewInputs]
  by (simp add: SweepInput_def feeRateForPreference_def sweeperConfig_def sweeperWith_def
      inputOf_def)

section \<open>Properties of clusterBySweepFeeRate\<close>








section \<open>Properties of sweep\<close>

lemma signalAndRemove_Some:
  assumes "map_of (pendingInputs s) op = Some p"
  shows "signalAndRemove s op result =
           Some (s\<lparr>events := events s @ map (\<lambda>c. SendResult c result) (listeners p) @
                        (case ntfnRegCancel p of None \<Rightarrow> [] | Some reg \<Rightarrow> [CallNtfnRegCancel reg]),
                    pendingInputs := AList.delete op (pendingInputs s)\<rparr>)"
  using assms by (simp add: signalAndRemove_def)

lemma signalAndRemove_effect:
  assumes "signalAndRemove s op result = Some s'"
  shows "currentOutputScript s' = currentOutputScript s \<and>
         rng s' = rng s \<and>
         (\<exists>p. map_of (pendingInputs s) op = Some p \<and>
              events s' = events s @ map (\<lambda>c. SendResult c result) (listeners p) @
                (case ntfnRegCancel p of None \<Rightarrow> [] | Some reg \<Rightarrow> [CallNtfnRegCancel reg])) \<and>
         map_of (pendingInputs s') = (map_of (pendingInputs s))(op := None)"
  using assms by (auto simp: signalAndRemove_def delete_conv' split: option.splits)

lemma cancel_events_signal:
  "\<forall>e \<in> set (case x of None \<Rightarrow> [] | Some reg \<Rightarrow> [CallNtfnRegCancel reg]). isSignal e"
  by (cases x) simp_all

lemma reschedule_events:
  "reschedule cfg h s txins = (res, s') \<Longrightarrow>
     currentOutputScript s' = currentOutputScript s \<and>
     (\<exists>new. events s' = events s @ new \<and> (\<forall>e \<in> set new. isSignal e))"
proof (induction txins arbitrary: s)
  case Nil
  then show ?case by simp
next
  case (Cons txIn rest)
  show ?case
  proof (cases "map_of (pendingInputs s) (PreviousOutPoint txIn)")
    case None
    then have "reschedule cfg h s rest = (res, s')" using Cons.prems by simp
    then show ?thesis by (rule Cons.IH)
  next
    case (Some p)
    let ?op = "PreviousOutPoint txIn"
    let ?p1 = "p\<lparr>publishAttempts := publishAttempts p + 1\<rparr>"
    show ?thesis
    proof (cases "NextAttemptDeltaFunc cfg (rng s) (publishAttempts p + 1)")
      case None
      then show ?thesis using Cons.prems Some by (auto simp: Let_def)
    next
      case (Some dr)
      obtain delta rng' where dr: "dr = (delta, rng')" by (cases dr)
      let ?p2 = "?p1\<lparr>minPublishHeight := h + delta\<rparr>"
      let ?s2 = "s\<lparr>pendingInputs := AList.update ?op ?p2 (pendingInputs s), rng := rng'\<rparr>"
      show ?thesis
      proof (cases "MaxSweepAttempts cfg \<le> publishAttempts p + 1")
        case False
        then have "reschedule cfg h ?s2 rest = (res, s')"
          using Cons.prems \<open>map_of (pendingInputs s) ?op = Some p\<close> Some dr
          by (simp add: Let_def)
        from Cons.IH [OF this] show ?thesis by simp
      next
        case True
        have m2: "map_of (pendingInputs ?s2) ?op = Some ?p2" by (simp add: update_conv')
        let ?s3 = "?s2\<lparr>events := events ?s2 @ map (\<lambda>c. SendResult c tooManyAttempts) (listeners ?p2) @
                        (case ntfnRegCancel ?p2 of None \<Rightarrow> [] | Some reg \<Rightarrow> [CallNtfnRegCancel reg]),
                    pendingInputs := AList.delete ?op (pendingInputs ?s2)\<rparr>"
        have sr: "signalAndRemove ?s2 ?op tooManyAttempts = Some ?s3"
          by (rule signalAndRemove_Some [OF m2])
        have "reschedule cfg h ?s3 rest = (res, s')"
          using Cons.prems \<open>map_of (pendingInputs s) ?op = Some p\<close> Some dr True sr
          by (simp add: Let_def tooManyAttempts_def)
        from Cons.IH [OF this] obtain new where
          n: "currentOutputScript s' = currentOutputScript ?s3"
             "events s' = events ?s3 @ new" "\<forall>e \<in> set new. isSignal e"
          by blast
        show ?thesis
          using n cancel_events_signal [of "ntfnRegCancel p"] by auto
      qed
    qed
  qed
qed

lemma reschedule_frame:
  "reschedule cfg h s txins = (res, s') \<Longrightarrow> op \<notin> PreviousOutPoint ` set txins \<Longrightarrow>
     map_of (pendingInputs s') op = map_of (pendingInputs s) op"
proof (induction txins arbitrary: s)
  case Nil
  then show ?case by simp
next
  case (Cons txIn rest)
  have ne: "PreviousOutPoint txIn \<noteq> op" and nr: "op \<notin> PreviousOutPoint ` set rest"
    using Cons.prems(2) by auto
  show ?case
  proof (cases "map_of (pendingInputs s) (PreviousOutPoint txIn)")
    case None
    then have "reschedule cfg h s rest = (res, s')" using Cons.prems by simp
    from Cons.IH [OF this nr] show ?thesis .
  next
    case (Some p)
    let ?op = "PreviousOutPoint txIn"
    let ?p1 = "p\<lparr>publishAttempts := publishAttempts p + 1\<rparr>"
    show ?thesis
    proof (cases "NextAttemptDeltaFunc cfg (rng s) (publishAttempts p + 1)")
      case None
      then show ?thesis using Cons.prems Some ne by (auto simp: Let_def update_conv')
    next
      case (Some dr)
      obtain delta rng' where dr: "dr = (delta, rng')" by (cases dr)
      let ?p2 = "?p1\<lparr>minPublishHeight := h + delta\<rparr>"
      let ?s2 = "s\<lparr>pendingInputs := AList.update ?op ?p2 (pendingInputs s), rng := rng'\<rparr>"
      have f2: "map_of (pendingInputs ?s2) op = map_of (pendingInputs s) op"
        using ne by (simp add: update_conv')
      show ?thesis
      proof (cases "MaxSweepAttempts cfg \<le> publishAttempts p + 1")
        case False
        then have "reschedule cfg h ?s2 rest = (res, s')"
          using Cons.prems \<open>map_of (pendingInputs s) ?op = Some p\<close> Some dr
          by (simp add: Let_def)
        from Cons.IH [OF this nr] f2 show ?thesis by simp
      next
        case True
        have m2: "map_of (pendingInputs ?s2) ?op = Some ?p2" by (simp add: update_conv')
        let ?s3 = "?s2\<lparr>events := events ?s2 @ map (\<lambda>c. SendResult c tooManyAttempts) (listeners ?p2) @
                        (case ntfnRegCancel ?p2 of None \<Rightarrow> [] | Some reg \<Rightarrow> [CallNtfnRegCancel reg]),
                    pendingInputs := AList.delete ?op (pendingInputs ?s2)\<rparr>"
        have sr: "signalAndRemove ?s2 ?op tooManyAttempts = Some ?s3"
          by (rule signalAndRemove_Some [OF m2])
        have "reschedule cfg h ?s3 rest = (res, s')"
          using Cons.prems \<open>map_of (pendingInputs s) ?op = Some p\<close> Some dr True sr
          by (simp add: Let_def tooManyAttempts_def)
        from Cons.IH [OF this nr] have "map_of (pendingInputs s') op = map_of (pendingInputs ?s3) op" .
        also have "\<dots> = map_of (pendingInputs s) op"
          using ne by (simp add: delete_conv' update_conv')
        finally show ?thesis .
      qed
    qed
  qed
qed


lemma reschedule_step:
  assumes "reschedule cfg h s (txIn # rest) = (res, s')"
  shows "(map_of (pendingInputs s) (PreviousOutPoint txIn) = None \<and>
          reschedule cfg h s rest = (res, s')) \<or>
         (\<exists>p. map_of (pendingInputs s) (PreviousOutPoint txIn) = Some p \<and>
              NextAttemptDeltaFunc cfg (rng s) (publishAttempts p + 1) = None \<and>
              res = Panicked) \<or>
         (\<exists>p delta rng' s1.
              map_of (pendingInputs s) (PreviousOutPoint txIn) = Some p \<and>
              NextAttemptDeltaFunc cfg (rng s) (publishAttempts p + 1) = Some (delta, rng') \<and>
              reschedule cfg h s1 rest = (res, s') \<and>
              map_of (pendingInputs s1) =
                (map_of (pendingInputs s))
                  (PreviousOutPoint txIn :=
                     (if MaxSweepAttempts cfg \<le> publishAttempts p + 1 then None
                      else Some (p\<lparr>publishAttempts := publishAttempts p + 1,
                                   minPublishHeight := h + delta\<rparr>))) \<and>
              events s1 = events s @
                (if MaxSweepAttempts cfg \<le> publishAttempts p + 1
                 then map (\<lambda>c. SendResult c tooManyAttempts) (listeners p) @
                      (case ntfnRegCancel p of None \<Rightarrow> [] | Some reg \<Rightarrow> [CallNtfnRegCancel reg])
                 else []))"
proof (cases "map_of (pendingInputs s) (PreviousOutPoint txIn)")
  case None
  then show ?thesis using assms by simp
next
  case (Some p)
  let ?op = "PreviousOutPoint txIn"
  show ?thesis
  proof (cases "NextAttemptDeltaFunc cfg (rng s) (publishAttempts p + 1)")
    case None
    then show ?thesis using assms Some by (auto simp: Let_def)
  next
    case (Some dr)
    obtain delta rng' where dr: "dr = (delta, rng')" by (cases dr)
    let ?p2 = "p\<lparr>publishAttempts := publishAttempts p + 1, minPublishHeight := h + delta\<rparr>"
    let ?s2 = "s\<lparr>pendingInputs := AList.update ?op ?p2 (pendingInputs s), rng := rng'\<rparr>"
    show ?thesis
    proof (cases "MaxSweepAttempts cfg \<le> publishAttempts p + 1")
      case False
      then have "reschedule cfg h ?s2 rest = (res, s')"
        using assms \<open>map_of (pendingInputs s) ?op = Some p\<close> Some dr by (simp add: Let_def)
      moreover have "map_of (pendingInputs ?s2) = (map_of (pendingInputs s))(?op := Some ?p2)"
        by (simp add: update_conv')
      moreover have "events ?s2 = events s @ []" by simp
      ultimately show ?thesis
        using \<open>map_of (pendingInputs s) ?op = Some p\<close> Some dr False by (intro disjI2) force
    next
      case True
      have m2: "map_of (pendingInputs ?s2) ?op = Some ?p2" by (simp add: update_conv')
      let ?s3 = "?s2\<lparr>events := events ?s2 @ map (\<lambda>c. SendResult c tooManyAttempts) (listeners ?p2) @
                      (case ntfnRegCancel ?p2 of None \<Rightarrow> [] | Some reg \<Rightarrow> [CallNtfnRegCancel reg]),
                  pendingInputs := AList.delete ?op (pendingInputs ?s2)\<rparr>"
      have sr: "signalAndRemove ?s2 ?op tooManyAttempts = Some ?s3"
        by (rule signalAndRemove_Some [OF m2])
      have "reschedule cfg h ?s3 rest = (res, s')"
        using assms \<open>map_of (pendingInputs s) ?op = Some p\<close> Some dr True sr
        by (simp add: Let_def tooManyAttempts_def)
      moreover have "map_of (pendingInputs ?s3) = (map_of (pendingInputs s))(?op := None)"
        by (simp add: delete_conv' update_conv')
      moreover have "events ?s3 = events s @ map (\<lambda>c. SendResult c tooManyAttempts) (listeners p) @
                      (case ntfnRegCancel p of None \<Rightarrow> [] | Some reg \<Rightarrow> [CallNtfnRegCancel reg])"
        by simp
      ultimately show ?thesis
        using \<open>map_of (pendingInputs s) ?op = Some p\<close> Some dr True by (intro disjI2) force
    qed
  qed
qed

lemma reschedule_entry:
  "reschedule cfg h s txins = (Returned None, s') \<Longrightarrow>
   distinct (map PreviousOutPoint txins) \<Longrightarrow> txIn \<in> set txins \<Longrightarrow>
   map_of (pendingInputs s) (PreviousOutPoint txIn) = Some p \<Longrightarrow>
   \<exists>rs delta rs'.
     NextAttemptDeltaFunc cfg rs (publishAttempts p + 1) = Some (delta, rs') \<and>
     (if MaxSweepAttempts cfg \<le> publishAttempts p + 1
      then map_of (pendingInputs s') (PreviousOutPoint txIn) = None \<and>
           (\<exists>pre post. events s' =
              events s @ pre @ map (\<lambda>c. SendResult c tooManyAttempts) (listeners p) @ post)
      else map_of (pendingInputs s') (PreviousOutPoint txIn) =
             Some (p\<lparr>publishAttempts := publishAttempts p + 1,
                     minPublishHeight := h + delta\<rparr>))"
proof (induction txins arbitrary: s)
  case Nil
  then show ?case by simp
next
  case (Cons t rest)
  let ?op = "PreviousOutPoint txIn"
  have d: "distinct (map PreviousOutPoint rest)"
    and nt: "PreviousOutPoint t \<notin> PreviousOutPoint ` set rest"
    using Cons.prems(2) by auto
  from reschedule_step [OF Cons.prems(1)] show ?case
  proof (elim disjE exE conjE)
    assume none: "map_of (pendingInputs s) (PreviousOutPoint t) = None"
      and r: "reschedule cfg h s rest = (Returned None, s')"
    then have "txIn \<in> set rest" using Cons.prems(3,4) by auto
    from Cons.IH [OF r d this Cons.prems(4)] show ?thesis .
  next
    fix p0
    assume "Returned None = Panicked"
    then show ?thesis by simp
  next
    fix p0 delta rng' s1
    assume p0: "map_of (pendingInputs s) (PreviousOutPoint t) = Some p0"
      and dl: "NextAttemptDeltaFunc cfg (rng s) (publishAttempts p0 + 1) = Some (delta, rng')"
      and r: "reschedule cfg h s1 rest = (Returned None, s')"
      and m1: "map_of (pendingInputs s1) =
                (map_of (pendingInputs s))
                  (PreviousOutPoint t :=
                     (if MaxSweepAttempts cfg \<le> publishAttempts p0 + 1 then None
                      else Some (p0\<lparr>publishAttempts := publishAttempts p0 + 1,
                                   minPublishHeight := h + delta\<rparr>)))"
      and e1: "events s1 = events s @
                (if MaxSweepAttempts cfg \<le> publishAttempts p0 + 1
                 then map (\<lambda>c. SendResult c tooManyAttempts) (listeners p0) @
                      (case ntfnRegCancel p0 of None \<Rightarrow> [] | Some reg \<Rightarrow> [CallNtfnRegCancel reg])
                 else [])"
    show ?thesis
    proof (cases "PreviousOutPoint t = ?op")
      case True
      then have pp: "p0 = p" using p0 Cons.prems(4) by simp
      have notin: "?op \<notin> PreviousOutPoint ` set rest" using nt True by simp
      have fr: "map_of (pendingInputs s') ?op = map_of (pendingInputs s1) ?op"
        by (rule reschedule_frame [OF r notin])
      obtain new where new: "events s' = events s1 @ new"
        using reschedule_events [OF r] by blast
      show ?thesis
      proof (cases "MaxSweepAttempts cfg \<le> publishAttempts p + 1")
        case max: True
        have "map_of (pendingInputs s') ?op = None" using fr m1 True pp max by simp
        moreover have "events s' =
              events s @ [] @ map (\<lambda>c. SendResult c tooManyAttempts) (listeners p) @
                ((case ntfnRegCancel p of None \<Rightarrow> [] | Some reg \<Rightarrow> [CallNtfnRegCancel reg]) @ new)"
          using new e1 pp max by simp
        ultimately have "map_of (pendingInputs s') ?op = None \<and>
           (\<exists>pre post. events s' =
              events s @ pre @ map (\<lambda>c. SendResult c tooManyAttempts) (listeners p) @ post)"
          by blast
        then show ?thesis using dl pp max
          by (intro exI [of _ "rng s"] exI [of _ delta] exI [of _ rng']) simp
      next
        case False
        have "map_of (pendingInputs s') ?op =
                Some (p\<lparr>publishAttempts := publishAttempts p + 1, minPublishHeight := h + delta\<rparr>)"
          using fr m1 True pp False by simp
        then show ?thesis using dl pp False
          by (intro exI [of _ "rng s"] exI [of _ delta] exI [of _ rng']) simp
      qed
    next
      case False
      then have inrest: "txIn \<in> set rest" using Cons.prems(3) by auto
      have keep: "map_of (pendingInputs s1) ?op = Some p"
        using m1 False Cons.prems(4) by simp
      from Cons.IH [OF r d inrest keep] obtain rs dlt rs' where
        ih: "NextAttemptDeltaFunc cfg rs (publishAttempts p + 1) = Some (dlt, rs')"
          "if MaxSweepAttempts cfg \<le> publishAttempts p + 1
           then map_of (pendingInputs s') ?op = None \<and>
                (\<exists>pre post. events s' =
                   events s1 @ pre @ map (\<lambda>c. SendResult c tooManyAttempts) (listeners p) @ post)
           else map_of (pendingInputs s') ?op =
                  Some (p\<lparr>publishAttempts := publishAttempts p + 1,
                          minPublishHeight := h + dlt\<rparr>)"
        by blast
      obtain added where added: "events s1 = events s @ added" using e1 by blast
      show ?thesis
      proof (cases "MaxSweepAttempts cfg \<le> publishAttempts p + 1")
        case True
        then obtain pre post where
          "map_of (pendingInputs s') ?op = None"
          "events s' = events s1 @ pre @ map (\<lambda>c. SendResult c tooManyAttempts) (listeners p) @ post"
          using ih(2) by auto
        then have "map_of (pendingInputs s') ?op = None \<and>
          events s' = events s @ (added @ pre) @
            map (\<lambda>c. SendResult c tooManyAttempts) (listeners p) @ post"
          using added by simp
        then have "map_of (pendingInputs s') ?op = None \<and>
           (\<exists>pre post. events s' =
              events s @ pre @ map (\<lambda>c. SendResult c tooManyAttempts) (listeners p) @ post)"
          by blast
        then show ?thesis using ih(1) True
          by (intro exI [of _ rs] exI [of _ dlt] exI [of _ rs']) simp
      next
        case False
        then show ?thesis using ih
          by (intro exI [of _ rs] exI [of _ dlt] exI [of _ rs']) simp
      qed
    qed
  qed
qed


lemma sweep_cases [consumes 1, case_names gen create notify publish resched]:
  assumes "sweep cfg s ins feeRate h = (res, s')"
  obtains
    (gen) e where "currentOutputScript s = None" "GenSweepScript cfg = Inl e"
      "res = Returned (Some (ErrText ''gen sweep script''))"
      "s' = s\<lparr>events := events s @ [CallGenSweepScript]\<rparr>"
  | (create) s0 e where "scriptReady cfg s s0"
      "createSweepTx cfg ins (currentOutputScript s0) h feeRate = Inl e"
      "res = Returned (Some (ErrText ''create sweep tx''))" "s' = s0"
  | (notify) s0 tx e where "scriptReady cfg s s0"
      "createSweepTx cfg ins (currentOutputScript s0) h feeRate = Inr tx"
      "NotifyPublishTx cfg tx = Some e"
      "res = Returned (Some (ErrText ''notify publish tx''))"
      "s' = s0\<lparr>events := events s0 @ [CallNotifyPublishTx tx (Some e)]\<rparr>"
  | (publish) s0 tx e where "scriptReady cfg s s0"
      "createSweepTx cfg ins (currentOutputScript s0) h feeRate = Inr tx"
      "NotifyPublishTx cfg tx = None" "PublishTransaction cfg tx = Some e" "e \<noteq> ErrDoubleSpend"
      "res = Returned (Some (ErrText ''publish tx''))"
      "s' = s0\<lparr>events := events s0 @
               [CallNotifyPublishTx tx None, CallPublishTransaction tx (Some e)]\<rparr>"
  | (resched) s0 tx where "scriptReady cfg s s0"
      "createSweepTx cfg ins (currentOutputScript s0) h feeRate = Inr tx"
      "NotifyPublishTx cfg tx = None"
      "PublishTransaction cfg tx = None \<or> PublishTransaction cfg tx = Some ErrDoubleSpend"
      "reschedule cfg h
         (s0\<lparr>events := events s0 @
                [CallNotifyPublishTx tx None, CallPublishTransaction tx (PublishTransaction cfg tx)],
              currentOutputScript :=
                (if PublishTransaction cfg tx = None then None else currentOutputScript s0)\<rparr>)
         (TxIn tx) = (res, s')"
proof (cases "currentOutputScript s = None \<and> (\<exists>e. GenSweepScript cfg = Inl e)")
  case True
  then show ?thesis using assms gen by (auto simp: sweep_def)
next
  case False
  have "\<exists>s0. scriptReady cfg s s0"
  proof (cases "currentOutputScript s = None")
    case True
    then obtain pk where "GenSweepScript cfg = Inr pk"
      using False by (cases "GenSweepScript cfg") auto
    then show ?thesis using True by (simp add: scriptReady_def)
  next
    case nonempty: False
    then have "scriptReady cfg s s" by (auto simp: scriptReady_def)
    then show ?thesis ..
  qed
  then obtain s0 where s0: "scriptReady cfg s s0" ..
  then have run: "(case createSweepTx cfg ins (currentOutputScript s0) h feeRate of
                Inl err \<Rightarrow> (Returned (Some (ErrText ''create sweep tx'')), s0)
              | Inr tx \<Rightarrow>
                  (let s1 = s0\<lparr>events := events s0 @
                                  [CallNotifyPublishTx tx (NotifyPublishTx cfg tx)]\<rparr>
                   in if NotifyPublishTx cfg tx \<noteq> None
                      then (Returned (Some (ErrText ''notify publish tx'')), s1)
                      else
                        (let err = PublishTransaction cfg tx;
                             s2 = s1\<lparr>events := events s1 @ [CallPublishTransaction tx err]\<rparr>
                         in if err \<noteq> None \<and> err \<noteq> Some ErrDoubleSpend
                            then (Returned (Some (ErrText ''publish tx'')), s2)
                            else
                              (let s3 = (if err = None then s2\<lparr>currentOutputScript := None\<rparr>
                                         else s2)
                               in reschedule cfg h s3 (TxIn tx))))) = (res, s')"
    using assms by (auto simp: sweep_def scriptReady_def split: sum.splits if_splits)
  show ?thesis
  proof (cases "createSweepTx cfg ins (currentOutputScript s0) h feeRate")
    case (Inl e)
    then show ?thesis using run s0 create by simp
  next
    case (Inr tx)
    show ?thesis
    proof (cases "NotifyPublishTx cfg tx")
      case (Some e)
      then show ?thesis using run s0 Inr notify by simp
    next
      case None
      show ?thesis
      proof (cases "PublishTransaction cfg tx = None \<or> PublishTransaction cfg tx = Some ErrDoubleSpend")
        case True
        have "reschedule cfg h
         (s0\<lparr>events := events s0 @
                [CallNotifyPublishTx tx None, CallPublishTransaction tx (PublishTransaction cfg tx)],
              currentOutputScript :=
                (if PublishTransaction cfg tx = None then None else currentOutputScript s0)\<rparr>)
         (TxIn tx) = (res, s')"
          using run Inr None True by (auto simp: Let_def)
        then show ?thesis using s0 Inr None True resched by blast
      next
        case False
        then obtain e where e: "PublishTransaction cfg tx = Some e" "e \<noteq> ErrDoubleSpend"
          by (cases "PublishTransaction cfg tx") auto
        then show ?thesis using run s0 Inr None publish [of s0 tx e] by (simp add: Let_def)
      qed
    qed
  qed
qed

lemma sint_small: "- (2 ^ 31) \<le> k \<Longrightarrow> k < 2 ^ 31 \<Longrightarrow> sint (word_of_int k :: 32 word) = k"
  by (simp add: signed_of_int signed_take_bit_int_eq_self)

lemma sint_shifted_one:
  "sint (2 ^ k :: 32 word) = (if k < 31 then 2 ^ k else if k = 31 then - (2 ^ 31) else 0)"
proof (cases "k < 31")
  case True
  have "(2::int) ^ k < 2 ^ 31"
    using True by (intro power_strict_increasing) simp_all
  moreover have "- (2 ^ 31) \<le> (2::int) ^ k"
    by (rule order_trans [of _ 0]) simp_all
  moreover have "(2 ^ k :: 32 word) = word_of_int (2 ^ k)" by simp
  ultimately show ?thesis using True sint_small [of "2 ^ k"] by simp
next
  case False
  show ?thesis
  proof (cases "k = 31")
    case True
    then show ?thesis by simp
  next
    case False
    with \<open>\<not> k < 31\<close> have "32 \<le> k" by simp
    then have z: "(2 ^ k :: 32 word) = 0"
      by (simp add: exp_eq_zero_iff)
    show ?thesis using \<open>32 \<le> k\<close> by (simp only: z) simp
  qed
qed

lemma Default_delta_Some:
  assumes "DefaultNextAttemptDeltaFunc rs a = Some (delta, rs')"
    and "- (2 ^ 63) \<le> a" and "a < 2 ^ 63"
  shows "1 \<le> a \<and> a \<le> 31 \<and> 1 \<le> sint delta \<and> sint delta \<le> 2 ^ nat (a - 1)"
proof -
  let ?k = "nat ((a - 1) mod 2 ^ 64)"
  let ?x = "int (draws rs (drawn rs))"
  from assms(1) have pos: "0 < sint (2 ^ ?k :: 32 word)"
    by (auto simp: DefaultNextAttemptDeltaFunc_def Let_def Int31n_def split: if_splits)
  have k: "?k < 31"
  proof (rule ccontr)
    assume "\<not> ?k < 31"
    then have "sint (2 ^ ?k :: 32 word) \<le> 0" unfolding sint_shifted_one by simp
    then show False using pos by simp
  qed
  have a1: "0 \<le> a - 1"
  proof (rule ccontr)
    assume "\<not> 0 \<le> a - 1"
    then have neg: "a - 1 < 0" by simp
    have "(a - 1) mod 2 ^ 64 = (a - 1 + 2 ^ 64) mod 2 ^ 64" by (simp only: mod_add_self2)
    also have "\<dots> = a - 1 + 2 ^ 64"
      using neg assms(2) by (intro mod_pos_pos_trivial) simp_all
    finally have "?k \<ge> 31" using assms(2) by simp
    then show False using k by simp
  qed
  have "(a - 1) mod 2 ^ 64 = a - 1"
    using a1 assms(3) by (intro mod_pos_pos_trivial) simp_all
  then have keq: "int ?k = a - 1" using a1 by simp
  then have a: "1 \<le> a" "a \<le> 31" using k a1 by linarith+
  have p: "sint (2 ^ ?k :: 32 word) = 2 ^ ?k" using k unfolding sint_shifted_one by simp
  have d: "delta = 1 + word_of_int (?x mod 2 ^ ?k)"
    using assms(1) pos p
    by (auto simp: DefaultNextAttemptDeltaFunc_def Let_def Int31n_def split: if_splits)
  define m where "m = ?x mod 2 ^ ?k"
  define P where "P = (2::int) ^ ?k"
  have lt: "m < P" and ge: "0 \<le> m" by (simp_all add: m_def P_def)
  have le30: "P \<le> 2 ^ 30" unfolding P_def using k by (intro power_increasing) simp_all
  have "delta = word_of_int (1 + m)" using d by (simp add: m_def)
  moreover have "sint (word_of_int (1 + m) :: 32 word) = 1 + m"
  proof (rule sint_small)
    show "- (2 ^ 31) \<le> 1 + m" using ge by simp
    show "1 + m < 2 ^ 31" using lt le30 by simp
  qed
  ultimately have sd: "sint delta = 1 + m" by simp
  have kk: "?k = nat (a - 1)" using keq by linarith
  have "sint delta \<le> P" using sd lt by simp
  then have "sint delta \<le> 2 ^ nat (a - 1)" unfolding P_def kk [symmetric] .
  then show ?thesis using a sd ge by simp
qed

lemma Default_delta_total:
  assumes "1 \<le> a" and "a \<le> 31"
  shows "\<exists>delta rs'. DefaultNextAttemptDeltaFunc rs a = Some (delta, rs')"
proof -
  have "(a - 1) mod 2 ^ 64 = a - 1" using assms by (intro mod_pos_pos_trivial) simp_all
  then have "nat ((a - 1) mod 2 ^ 64) < 31" using assms by simp
  then have "0 < sint (2 ^ nat ((a - 1) mod 2 ^ 64) :: 32 word)"
    unfolding sint_shifted_one by simp
  then show ?thesis
    by (simp add: DefaultNextAttemptDeltaFunc_def Let_def Int31n_def)
qed


lemma sint_height_plus_delta:
  fixes h delta :: "32 word"
  assumes "0 \<le> sint h" and "sint h < 2 ^ 30" and "1 \<le> sint delta" and "sint delta \<le> 2 ^ 30"
  shows "sint (h + delta) = sint h + sint delta"
proof -
  have "- (2 ^ 31) \<le> sint h + sint delta" using assms(1,3) by simp
  moreover have "sint h + sint delta < 2 ^ 31" using assms(2,4) by simp
  ultimately show ?thesis
    by (simp add: sint_word_add signed_take_bit_int_eq_self)
qed

lemma reschedule_result:
  "reschedule cfg h s txins = (res, s') \<Longrightarrow> res = Returned None \<or> res = Panicked"
proof (induction txins arbitrary: s)
  case Nil
  then show ?case by simp
next
  case (Cons t rest)
  from reschedule_step [OF Cons.prems] show ?case using Cons.IH by blast
qed

lemma scriptReady_effect:
  assumes "scriptReady cfg s s0"
  obtains g where "pendingInputs s0 = pendingInputs s" "events s0 = events s @ g"
    "set g \<subseteq> {CallGenSweepScript}"
    "currentOutputScript s \<noteq> None \<longrightarrow> currentOutputScript s0 = currentOutputScript s"
    "currentOutputScript s = None \<longrightarrow> GenSweepScript cfg = Inr (currentOutputScript s0)"
proof (cases "currentOutputScript s = None")
  case True
  then obtain pk where pk: "GenSweepScript cfg = Inr pk"
    "s0 = s\<lparr>events := events s @ [CallGenSweepScript], currentOutputScript := pk\<rparr>"
    using assms by (cases "GenSweepScript cfg") (auto simp: scriptReady_def)
  show ?thesis
    by (rule that [of "[CallGenSweepScript]"]) (use True pk in auto)
next
  case False
  then have "s0 = s" using assms by (auto simp: scriptReady_def)
  then show ?thesis
    by (intro that [of "[]"]) (use False in auto)
qed

lemma recorded_skip_gen:
  "set g \<subseteq> {CallGenSweepScript} \<Longrightarrow>
     recordedBeforePublish recorded (g @ es) = recordedBeforePublish recorded es"
  by (induction g) auto

lemma recorded_signals:
  "\<forall>e \<in> set es. isSignal e \<Longrightarrow> recordedBeforePublish recorded es"
proof (induction es)
  case Nil
  then show ?case by simp
next
  case (Cons e es)
  then show ?case by (cases e) simp_all
qed

lemma newEvents_append: "events s' = events s @ es \<Longrightarrow> newEvents s s' = es"
  by (simp add: newEvents_def)

lemma no_publish_in_gen:
  "set g \<subseteq> {CallGenSweepScript} \<Longrightarrow> CallPublishTransaction tx r \<notin> set g"
  by auto

lemma no_publish_in_signals:
  "\<forall>e \<in> set es. isSignal e \<Longrightarrow> CallPublishTransaction tx r \<notin> set es"
  by auto

text \<open>What a run of \<open>sweep\<close> added to the events, by the step at which it returned.\<close>

lemma sweep_shape [consumes 1, case_names early failed published]:
  assumes "sweep cfg s ins feeRate h = (res, s')"
  obtains
    (early) g e where "set g \<subseteq> {CallGenSweepScript}" "res = Returned (Some e)"
      "pendingInputs s' = pendingInputs s"
      "newEvents s s' = g \<or> (\<exists>tx e'. newEvents s s' = g @ [CallNotifyPublishTx tx (Some e')])"
      "currentOutputScript s \<noteq> None \<longrightarrow> currentOutputScript s' = currentOutputScript s"
      "currentOutputScript s = None \<longrightarrow>
         currentOutputScript s' = None \<or> GenSweepScript cfg = Inr (currentOutputScript s')"
  | (failed) g tx e where "set g \<subseteq> {CallGenSweepScript}"
      "NotifyPublishTx cfg tx = None" "PublishTransaction cfg tx = Some e" "e \<noteq> ErrDoubleSpend"
      "res = Returned (Some (ErrText ''publish tx''))"
      "pendingInputs s' = pendingInputs s"
      "newEvents s s' = g @ [CallNotifyPublishTx tx None, CallPublishTransaction tx (Some e)]"
      "currentOutputScript s \<noteq> None \<longrightarrow> currentOutputScript s' = currentOutputScript s"
      "currentOutputScript s = None \<longrightarrow> GenSweepScript cfg = Inr (currentOutputScript s')"
  | (published) g tx s3 sig where "set g \<subseteq> {CallGenSweepScript}"
      "NotifyPublishTx cfg tx = None"
      "PublishTransaction cfg tx = None \<or> PublishTransaction cfg tx = Some ErrDoubleSpend"
      "pendingInputs s3 = pendingInputs s"
      "events s3 = events s @ g @
         [CallNotifyPublishTx tx None, CallPublishTransaction tx (PublishTransaction cfg tx)]"
      "reschedule cfg h s3 (TxIn tx) = (res, s')"
      "\<forall>e \<in> set sig. isSignal e"
      "newEvents s s' = g @
         [CallNotifyPublishTx tx None, CallPublishTransaction tx (PublishTransaction cfg tx)] @ sig"
      "PublishTransaction cfg tx = None \<longrightarrow> currentOutputScript s' = None"
      "PublishTransaction cfg tx \<noteq> None \<longrightarrow>
         (currentOutputScript s \<noteq> None \<longrightarrow> currentOutputScript s' = currentOutputScript s) \<and>
         (currentOutputScript s = None \<longrightarrow> GenSweepScript cfg = Inr (currentOutputScript s'))"
  using assms
proof (cases rule: sweep_cases)
  case (gen e)
  have ne: "newEvents s s' = [CallGenSweepScript]" using gen by (simp add: newEvents_def)
  have sc: "currentOutputScript s' = None" using gen by simp
  show ?thesis
  proof (rule early [of "[CallGenSweepScript]"])
    show "set [CallGenSweepScript] \<subseteq> {CallGenSweepScript}" by simp
    show "res = Returned (Some (ErrText ''gen sweep script''))" by (rule gen(3))
    show "pendingInputs s' = pendingInputs s" using gen by simp
    show "newEvents s s' = [CallGenSweepScript] \<or>
        (\<exists>tx e'. newEvents s s' = [CallGenSweepScript] @ [CallNotifyPublishTx tx (Some e')])"
      using ne by simp
    show "currentOutputScript s \<noteq> None \<longrightarrow> currentOutputScript s' = currentOutputScript s"
      using gen(1) by simp
    show "currentOutputScript s = None \<longrightarrow>
         currentOutputScript s' = None \<or> GenSweepScript cfg = Inr (currentOutputScript s')"
      using sc by simp
  qed
next
  case (create s0 e)
  from scriptReady_effect [OF create(1)] obtain g where
    g: "pendingInputs s0 = pendingInputs s" "events s0 = events s @ g" "set g \<subseteq> {CallGenSweepScript}"
      "currentOutputScript s \<noteq> None \<longrightarrow> currentOutputScript s0 = currentOutputScript s"
      "currentOutputScript s = None \<longrightarrow> GenSweepScript cfg = Inr (currentOutputScript s0)" .
  have ne: "newEvents s s' = g" using g create by (simp add: newEvents_def)
  show ?thesis
  proof (rule early [of g])
    show "set g \<subseteq> {CallGenSweepScript}" by (rule g(3))
    show "res = Returned (Some (ErrText ''create sweep tx''))" by (rule create(3))
    show "pendingInputs s' = pendingInputs s" using g(1) create(4) by simp
    show "newEvents s s' = g \<or> (\<exists>tx e'. newEvents s s' = g @ [CallNotifyPublishTx tx (Some e')])"
      using ne by simp
    show "currentOutputScript s \<noteq> None \<longrightarrow> currentOutputScript s' = currentOutputScript s"
      using g(4) create(4) by simp
    show "currentOutputScript s = None \<longrightarrow>
         currentOutputScript s' = None \<or> GenSweepScript cfg = Inr (currentOutputScript s')"
      using g(5) create(4) by simp
  qed
next
  case (notify s0 tx e)
  from scriptReady_effect [OF notify(1)] obtain g where
    g: "pendingInputs s0 = pendingInputs s" "events s0 = events s @ g" "set g \<subseteq> {CallGenSweepScript}"
      "currentOutputScript s \<noteq> None \<longrightarrow> currentOutputScript s0 = currentOutputScript s"
      "currentOutputScript s = None \<longrightarrow> GenSweepScript cfg = Inr (currentOutputScript s0)" .
  have ne: "newEvents s s' = g @ [CallNotifyPublishTx tx (Some e)]"
    using g notify by (simp add: newEvents_def)
  show ?thesis
  proof (rule early [of g])
    show "set g \<subseteq> {CallGenSweepScript}" by (rule g(3))
    show "res = Returned (Some (ErrText ''notify publish tx''))" by (rule notify(4))
    show "pendingInputs s' = pendingInputs s" using g(1) notify(5) by simp
    show "newEvents s s' = g \<or> (\<exists>tx e'. newEvents s s' = g @ [CallNotifyPublishTx tx (Some e')])"
      using ne by blast
    show "currentOutputScript s \<noteq> None \<longrightarrow> currentOutputScript s' = currentOutputScript s"
      using g(4) notify(5) by simp
    show "currentOutputScript s = None \<longrightarrow>
         currentOutputScript s' = None \<or> GenSweepScript cfg = Inr (currentOutputScript s')"
      using g(5) notify(5) by simp
  qed
next
  case (publish s0 tx e)
  from scriptReady_effect [OF publish(1)] obtain g where
    g: "pendingInputs s0 = pendingInputs s" "events s0 = events s @ g" "set g \<subseteq> {CallGenSweepScript}"
      "currentOutputScript s \<noteq> None \<longrightarrow> currentOutputScript s0 = currentOutputScript s"
      "currentOutputScript s = None \<longrightarrow> GenSweepScript cfg = Inr (currentOutputScript s0)" .
  have ne: "newEvents s s' = g @ [CallNotifyPublishTx tx None, CallPublishTransaction tx (Some e)]"
    using g publish by (simp add: newEvents_def)
  show ?thesis
  proof (rule failed [of g tx e])
    show "set g \<subseteq> {CallGenSweepScript}" by (rule g(3))
    show "NotifyPublishTx cfg tx = None" by (rule publish(3))
    show "PublishTransaction cfg tx = Some e" by (rule publish(4))
    show "e \<noteq> ErrDoubleSpend" by (rule publish(5))
    show "res = Returned (Some (ErrText ''publish tx''))" by (rule publish(6))
    show "pendingInputs s' = pendingInputs s" using g(1) publish(7) by simp
    show "newEvents s s' = g @ [CallNotifyPublishTx tx None, CallPublishTransaction tx (Some e)]"
      by (rule ne)
    show "currentOutputScript s \<noteq> None \<longrightarrow> currentOutputScript s' = currentOutputScript s"
      using g(4) publish(7) by simp
    show "currentOutputScript s = None \<longrightarrow> GenSweepScript cfg = Inr (currentOutputScript s')"
      using g(5) publish(7) by simp
  qed
next
  case (resched s0 tx)
  from scriptReady_effect [OF resched(1)] obtain g where
    g: "pendingInputs s0 = pendingInputs s" "events s0 = events s @ g" "set g \<subseteq> {CallGenSweepScript}"
      "currentOutputScript s \<noteq> None \<longrightarrow> currentOutputScript s0 = currentOutputScript s"
      "currentOutputScript s = None \<longrightarrow> GenSweepScript cfg = Inr (currentOutputScript s0)" .
  define r where "r = PublishTransaction cfg tx"
  define s3 where "s3 = s0\<lparr>events := events s0 @
                [CallNotifyPublishTx tx None, CallPublishTransaction tx (PublishTransaction cfg tx)],
              currentOutputScript :=
                (if PublishTransaction cfg tx = None then None else currentOutputScript s0)\<rparr>"
  have run: "reschedule cfg h s3 (TxIn tx) = (res, s')" using resched(5) by (simp add: s3_def)
  from reschedule_events [OF run] obtain sig where
    sig: "currentOutputScript s' = currentOutputScript s3" "events s' = events s3 @ sig"
      "\<forall>e \<in> set sig. isSignal e"
    by blast
  have ev3: "events s3 = events s @ g @
      [CallNotifyPublishTx tx None, CallPublishTransaction tx (PublishTransaction cfg tx)]"
    using g(2) by (simp add: s3_def)
  have sc3: "currentOutputScript s3 =
      (if PublishTransaction cfg tx = None then None else currentOutputScript s0)"
    by (simp add: s3_def)
  show ?thesis
  proof (rule published [of g tx s3 sig])
    show "set g \<subseteq> {CallGenSweepScript}" by (rule g(3))
    show "NotifyPublishTx cfg tx = None" by (rule resched(3))
    show "PublishTransaction cfg tx = None \<or> PublishTransaction cfg tx = Some ErrDoubleSpend"
      by (rule resched(4))
    show "pendingInputs s3 = pendingInputs s" using g(1) by (simp add: s3_def)
    show "events s3 = events s @ g @
         [CallNotifyPublishTx tx None, CallPublishTransaction tx (PublishTransaction cfg tx)]"
      by (rule ev3)
    show "reschedule cfg h s3 (TxIn tx) = (res, s')" by (rule run)
    show "\<forall>e \<in> set sig. isSignal e" by (rule sig(3))
    show "newEvents s s' = g @
         [CallNotifyPublishTx tx None, CallPublishTransaction tx (PublishTransaction cfg tx)] @ sig"
      using sig(2) ev3 by (simp add: newEvents_def)
    show "PublishTransaction cfg tx = None \<longrightarrow> currentOutputScript s' = None"
      using sig(1) sc3 by simp
    show "PublishTransaction cfg tx \<noteq> None \<longrightarrow>
         (currentOutputScript s \<noteq> None \<longrightarrow> currentOutputScript s' = currentOutputScript s) \<and>
         (currentOutputScript s = None \<longrightarrow> GenSweepScript cfg = Inr (currentOutputScript s'))"
      using sig(1) sc3 g(4,5) by auto
  qed
qed

lemma example_sweep_published:
  "sweep (sweeperConfig None) (sweeperWith 250 [(opA, pendingOf opA [3] 0 1000)])
     [inputOf opA] 1000 100 =
     (Returned None,
      (sweeperWith 250
         [(opA, (pendingOf opA [3] 0 1000)\<lparr>publishAttempts := 1, minPublishHeight := 101\<rparr>)])
        \<lparr>rng := \<lparr>draws = (\<lambda>k. 5), drawn = 1\<rparr>,
         events := [CallGenSweepScript,
                    CallNotifyPublishTx (spendAll [inputOf opA]) None,
                    CallPublishTransaction (spendAll [inputOf opA]) None]\<rparr>)"
  by (simp add: sweep_def sweeperConfig_def sweeperWith_def pendingOf_def spendAll_def inputOf_def
      DefaultNextAttemptDeltaFunc_def Int31n_def Let_def)

lemma example_sweep_double_spend:
  "sweep (sweeperConfig (Some ErrDoubleSpend))
     (sweeperWith 250 [(opA, pendingOf opA [3, 4] 9 1000), (opB, pendingOf opB [5] 2 1000)])
     [inputOf opA, inputOf opB] 1000 100 =
     (Returned None,
      (sweeperWith 250
         [(opB, (pendingOf opB [5] 2 1000)\<lparr>publishAttempts := 3, minPublishHeight := 102\<rparr>)])
        \<lparr>currentOutputScript := Some [81],
         rng := \<lparr>draws = (\<lambda>k. 5), drawn = 2\<rparr>,
         events := [CallGenSweepScript,
                    CallNotifyPublishTx (spendAll [inputOf opA, inputOf opB]) None,
                    CallPublishTransaction (spendAll [inputOf opA, inputOf opB])
                      (Some ErrDoubleSpend),
                    SendResult 3 tooManyAttempts,
                    SendResult 4 tooManyAttempts,
                    CallNtfnRegCancel 0]\<rparr>)"
  by (simp add: sweep_def sweeperConfig_def sweeperWith_def pendingOf_def spendAll_def inputOf_def
      DefaultNextAttemptDeltaFunc_def Int31n_def Let_def signalAndRemove_def opA_def opB_def
      tooManyAttempts_def)

text \<open>
  C7. In every run of \<open>sweep\<close>, a call of \<open>PublishTransaction\<close> comes only after a
  call of \<open>NotifyPublishTx\<close> for the same transaction that returned nil, so the
  transaction is recorded in the store before it is published. A published transaction
  whose publication returned nil or \<open>ErrDoubleSpend\<close> does not make \<open>sweep\<close> return
  an error. The cached output script is cleared when publication returned nil, and
  only then: after any other result of the publication, and in a run without
  publication, a cached script is kept and a script that was generated stays cached.
\<close>

theorem sweep_records_before_publish:
  assumes "sweep cfg s ins feeRate h = (res, s')"
  shows "recordedBeforePublish [] (newEvents s s') \<and>
         (\<forall>tx r. CallPublishTransaction tx r \<in> set (newEvents s s') \<longrightarrow>
            r = PublishTransaction cfg tx \<and>
            CallNotifyPublishTx tx None \<in> set (newEvents s s') \<and>
            NotifyPublishTx cfg tx = None \<and>
            (r = None \<or> r = Some ErrDoubleSpend \<longrightarrow> (\<forall>e. res \<noteq> Returned (Some e))) \<and>
            (r = None \<longrightarrow> currentOutputScript s' = None) \<and>
            (r \<noteq> None \<longrightarrow>
               (currentOutputScript s \<noteq> None \<longrightarrow> currentOutputScript s' = currentOutputScript s) \<and>
               (currentOutputScript s = None \<longrightarrow>
                  GenSweepScript cfg = Inr (currentOutputScript s')))) \<and>
         ((\<forall>tx. CallPublishTransaction tx None \<notin> set (newEvents s s')) \<longrightarrow>
            (currentOutputScript s \<noteq> None \<longrightarrow> currentOutputScript s' = currentOutputScript s) \<and>
            (currentOutputScript s = None \<longrightarrow>
               currentOutputScript s' = None \<or>
               GenSweepScript cfg = Inr (currentOutputScript s')))"
  using assms
proof (cases rule: sweep_shape)
  case (early g e)
  have np: "CallPublishTransaction tx r \<notin> set (newEvents s s')" for tx r
    using early(1,4) by auto
  have rec: "recordedBeforePublish [] (newEvents s s')"
  proof -
    have "recordedBeforePublish [] (g @ [])"
      unfolding recorded_skip_gen [OF early(1)] by simp
    moreover have "recordedBeforePublish [] (g @ [CallNotifyPublishTx tx (Some e')])" for tx e'
      unfolding recorded_skip_gen [OF early(1)] by simp
    ultimately show ?thesis using early(4) by auto
  qed
  show ?thesis using rec np early(5,6) by simp
next
  case (failed g tx e)
  have rec: "recordedBeforePublish [] (newEvents s s')"
    unfolding failed(7) recorded_skip_gen [OF failed(1)] by simp
  have pub: "tx' = tx \<and> r = Some e"
    if "CallPublishTransaction tx' r \<in> set (newEvents s s')" for tx' r
    using that failed(1) unfolding failed(7) by auto
  have nt: "CallNotifyPublishTx tx None \<in> set (newEvents s s')" unfolding failed(7) by simp
  have a: "r = PublishTransaction cfg tx' \<and>
            CallNotifyPublishTx tx' None \<in> set (newEvents s s') \<and>
            NotifyPublishTx cfg tx' = None \<and>
            (r = None \<or> r = Some ErrDoubleSpend \<longrightarrow> (\<forall>e. res \<noteq> Returned (Some e))) \<and>
            (r = None \<longrightarrow> currentOutputScript s' = None) \<and>
            (r \<noteq> None \<longrightarrow>
               (currentOutputScript s \<noteq> None \<longrightarrow> currentOutputScript s' = currentOutputScript s) \<and>
               (currentOutputScript s = None \<longrightarrow>
                  GenSweepScript cfg = Inr (currentOutputScript s')))"
    if "CallPublishTransaction tx' r \<in> set (newEvents s s')" for tx' r
    using pub [OF that] nt failed(2,3,4,8,9) by simp
  have b: "(currentOutputScript s \<noteq> None \<longrightarrow> currentOutputScript s' = currentOutputScript s) \<and>
            (currentOutputScript s = None \<longrightarrow>
               currentOutputScript s' = None \<or>
               GenSweepScript cfg = Inr (currentOutputScript s'))"
    using failed(8,9) by simp
  show ?thesis using rec a b by blast
next
  case (published g tx s3 sig)
  let ?r = "PublishTransaction cfg tx"
  have rec: "recordedBeforePublish [] (newEvents s s')"
    unfolding published(8) recorded_skip_gen [OF published(1)]
    using recorded_signals [OF published(7)] by simp
  have pub: "tx' = tx \<and> r = ?r"
    if "CallPublishTransaction tx' r \<in> set (newEvents s s')" for tx' r
    using that published(1,7) unfolding published(8) by auto
  have nt: "CallNotifyPublishTx tx None \<in> set (newEvents s s')" unfolding published(8) by simp
  have pin: "CallPublishTransaction tx ?r \<in> set (newEvents s s')" unfolding published(8) by simp
  have res: "\<forall>e. res \<noteq> Returned (Some e)"
    using reschedule_result [OF published(6)] by auto
  have a: "r = PublishTransaction cfg tx' \<and>
            CallNotifyPublishTx tx' None \<in> set (newEvents s s') \<and>
            NotifyPublishTx cfg tx' = None \<and>
            (r = None \<or> r = Some ErrDoubleSpend \<longrightarrow> (\<forall>e. res \<noteq> Returned (Some e))) \<and>
            (r = None \<longrightarrow> currentOutputScript s' = None) \<and>
            (r \<noteq> None \<longrightarrow>
               (currentOutputScript s \<noteq> None \<longrightarrow> currentOutputScript s' = currentOutputScript s) \<and>
               (currentOutputScript s = None \<longrightarrow>
                  GenSweepScript cfg = Inr (currentOutputScript s')))"
    if "CallPublishTransaction tx' r \<in> set (newEvents s s')" for tx' r
    using pub [OF that] nt res published(2,9,10) by simp
  have b: "(currentOutputScript s \<noteq> None \<longrightarrow> currentOutputScript s' = currentOutputScript s) \<and>
            (currentOutputScript s = None \<longrightarrow>
               currentOutputScript s' = None \<or>
               GenSweepScript cfg = Inr (currentOutputScript s'))"
    if "\<forall>tx. CallPublishTransaction tx None \<notin> set (newEvents s s')"
  proof -
    have "?r \<noteq> None" using that pin by metis
    then show ?thesis using published(10) by simp
  qed
  show ?thesis using rec a b by blast
qed

theorem sweep_records_before_publish_witness:
  "sweep (sweeperConfig None) (sweeperWith 250 [(opA, pendingOf opA [3] 0 1000)])
     [inputOf opA] 1000 100 =
     (Returned None,
      (sweeperWith 250
         [(opA, (pendingOf opA [3] 0 1000)\<lparr>publishAttempts := 1, minPublishHeight := 101\<rparr>)])
        \<lparr>rng := \<lparr>draws = (\<lambda>k. 5), drawn = 1\<rparr>,
         events := [CallGenSweepScript,
                    CallNotifyPublishTx (spendAll [inputOf opA]) None,
                    CallPublishTransaction (spendAll [inputOf opA]) None]\<rparr>) \<and>
   recordedBeforePublish []
     [CallGenSweepScript,
      CallNotifyPublishTx (spendAll [inputOf opA]) None,
      CallPublishTransaction (spendAll [inputOf opA]) None] \<and>
   \<not> recordedBeforePublish []
     [CallGenSweepScript,
      CallPublishTransaction (spendAll [inputOf opA]) None,
      CallNotifyPublishTx (spendAll [inputOf opA]) None]"
  using sweep_records_before_publish [OF example_sweep_published] example_sweep_published
  by (simp add: newEvents_def sweeperWith_def)

text \<open>
  C6, as stated, fails: when \<open>PublishTransaction\<close> returns an error other than
  \<open>ErrDoubleSpend\<close>, \<open>sweep\<close> returns before the loop that reschedules. After the
  publication attempt at height 100 the input still has 0 publish attempts and its
  minimum publish height is still 100.
\<close>

theorem sweep_publish_error_counterexample:
  "sweep (sweeperConfig (Some (ErrExternal 1)))
     (sweeperWith 250 [(opA, pendingOf opA [3] 0 1000)]) [inputOf opA] 1000 100 =
     (Returned (Some (ErrText ''publish tx'')),
      (sweeperWith 250 [(opA, pendingOf opA [3] 0 1000)])
        \<lparr>currentOutputScript := Some [81],
         events := [CallGenSweepScript,
                    CallNotifyPublishTx (spendAll [inputOf opA]) None,
                    CallPublishTransaction (spendAll [inputOf opA]) (Some (ErrExternal 1))]\<rparr>) \<and>
   publishAttempts (pendingOf opA [3] 0 1000) = 0 \<and>
   minPublishHeight (pendingOf opA [3] 0 1000) = 100"
  by (simp add: sweep_def sweeperConfig_def sweeperWith_def pendingOf_def)

text \<open>
  C6, amended. Let \<open>sweep\<close> have published the transaction \<open>tx\<close>. If the publication
  returned an error other than \<open>ErrDoubleSpend\<close>, \<open>sweep\<close> returns that error and the
  pending inputs are as they were. If \<open>sweep\<close> returned nil (the publication returned nil
  or \<open>ErrDoubleSpend\<close>) and the inputs of \<open>tx\<close> spend distinct outpoints, then for each
  input of \<open>tx\<close> that was pending: \<open>NextAttemptDeltaFunc\<close> was called with the publish
  attempts plus one; if that number reaches \<open>MaxSweepAttempts\<close> the input is no longer
  pending and \<open>ErrTooManyAttempts\<close> was sent to each of its listeners; otherwise its
  publish attempts are incremented by one and its minimum publish height is the current
  height plus the delta. With \<open>DefaultNextAttemptDeltaFunc\<close> the delta is at least 1 and at
  most \<open>2 ^ (attempts - 1)\<close>, and for a current height from 0 to below \<open>2 ^ 30\<close> the
  new minimum publish height is at least the current height plus 1.
\<close>

theorem sweep_retry_accounting:
  assumes "sweep cfg s ins feeRate h = (res, s')"
    and "CallPublishTransaction tx r \<in> set (newEvents s s')"
  shows "(r \<noteq> None \<and> r \<noteq> Some ErrDoubleSpend \<longrightarrow>
            pendingInputs s' = pendingInputs s \<and>
            res = Returned (Some (ErrText ''publish tx''))) \<and>
         (res = Returned None \<and> distinct (map PreviousOutPoint (TxIn tx)) \<longrightarrow>
            (r = None \<or> r = Some ErrDoubleSpend) \<and>
            (\<forall>txIn \<in> set (TxIn tx). \<forall>p.
               map_of (pendingInputs s) (PreviousOutPoint txIn) = Some p \<longrightarrow>
               (\<exists>rs delta rs'.
                  NextAttemptDeltaFunc cfg rs (publishAttempts p + 1) = Some (delta, rs') \<and>
                  (if MaxSweepAttempts cfg \<le> publishAttempts p + 1
                   then map_of (pendingInputs s') (PreviousOutPoint txIn) = None \<and>
                        (\<forall>c \<in> set (listeners p).
                           SendResult c tooManyAttempts \<in> set (newEvents s s'))
                   else map_of (pendingInputs s') (PreviousOutPoint txIn) =
                          Some (p\<lparr>publishAttempts := publishAttempts p + 1,
                                  minPublishHeight := h + delta\<rparr>)) \<and>
                  (NextAttemptDeltaFunc cfg = DefaultNextAttemptDeltaFunc \<and>
                   0 \<le> publishAttempts p \<and> publishAttempts p < 2 ^ 62 \<longrightarrow>
                     1 \<le> sint delta \<and> sint delta \<le> 2 ^ nat (publishAttempts p) \<and>
                     (0 \<le> sint h \<and> sint h < 2 ^ 30 \<longrightarrow> sint h + 1 \<le> sint (h + delta))))))"
  using assms(1)
proof (cases rule: sweep_shape)
  case (early g e)
  have "CallPublishTransaction tx r \<notin> set (newEvents s s')" using early(1,4) by auto
  then show ?thesis using assms(2) by simp
next
  case (failed g tx0 e)
  have "tx = tx0 \<and> r = Some e" using assms(2) failed(1) unfolding failed(7) by auto
  then show ?thesis using failed(4,5,6) by simp
next
  case (published g tx0 s3 sig)
  have tr: "tx = tx0 \<and> r = PublishTransaction cfg tx0"
    using assms(2) published(1,7) unfolding published(8) by auto
  have r: "r = None \<or> r = Some ErrDoubleSpend" using tr published(3) by simp
  have entries: "\<exists>rs delta rs'.
                  NextAttemptDeltaFunc cfg rs (publishAttempts p + 1) = Some (delta, rs') \<and>
                  (if MaxSweepAttempts cfg \<le> publishAttempts p + 1
                   then map_of (pendingInputs s') (PreviousOutPoint txIn) = None \<and>
                        (\<forall>c \<in> set (listeners p).
                           SendResult c tooManyAttempts \<in> set (newEvents s s'))
                   else map_of (pendingInputs s') (PreviousOutPoint txIn) =
                          Some (p\<lparr>publishAttempts := publishAttempts p + 1,
                                  minPublishHeight := h + delta\<rparr>)) \<and>
                  (NextAttemptDeltaFunc cfg = DefaultNextAttemptDeltaFunc \<and>
                   0 \<le> publishAttempts p \<and> publishAttempts p < 2 ^ 62 \<longrightarrow>
                     1 \<le> sint delta \<and> sint delta \<le> 2 ^ nat (publishAttempts p) \<and>
                     (0 \<le> sint h \<and> sint h < 2 ^ 30 \<longrightarrow> sint h + 1 \<le> sint (h + delta)))"
    if ok: "res = Returned None" and dist: "distinct (map PreviousOutPoint (TxIn tx))"
      and mem: "txIn \<in> set (TxIn tx)"
      and pend: "map_of (pendingInputs s) (PreviousOutPoint txIn) = Some p"
    for txIn p
  proof -
    have run: "reschedule cfg h s3 (TxIn tx) = (Returned None, s')"
      using published(6) ok tr by simp
    have pend3: "map_of (pendingInputs s3) (PreviousOutPoint txIn) = Some p"
      using pend published(4) by simp
    from reschedule_entry [OF run dist mem pend3] obtain rs delta rs' where
      d: "NextAttemptDeltaFunc cfg rs (publishAttempts p + 1) = Some (delta, rs')"
      and e: "if MaxSweepAttempts cfg \<le> publishAttempts p + 1
              then map_of (pendingInputs s') (PreviousOutPoint txIn) = None \<and>
                   (\<exists>pre post. events s' =
                      events s3 @ pre @ map (\<lambda>c. SendResult c tooManyAttempts) (listeners p) @ post)
              else map_of (pendingInputs s') (PreviousOutPoint txIn) =
                     Some (p\<lparr>publishAttempts := publishAttempts p + 1,
                             minPublishHeight := h + delta\<rparr>)"
      by blast
    have sends: "\<forall>c \<in> set (listeners p). SendResult c tooManyAttempts \<in> set (newEvents s s')"
      if "\<exists>pre post. events s' =
            events s3 @ pre @ map (\<lambda>c. SendResult c tooManyAttempts) (listeners p) @ post"
    proof -
      from that obtain pre post where
        "events s' = events s3 @ pre @ map (\<lambda>c. SendResult c tooManyAttempts) (listeners p) @ post"
        by blast
      then have "newEvents s s' = g @
         [CallNotifyPublishTx tx0 None, CallPublishTransaction tx0 (PublishTransaction cfg tx0)] @
         pre @ map (\<lambda>c. SendResult c tooManyAttempts) (listeners p) @ post"
        using published(5) by (simp add: newEvents_def)
      then show ?thesis by auto
    qed
    have acc: "if MaxSweepAttempts cfg \<le> publishAttempts p + 1
                   then map_of (pendingInputs s') (PreviousOutPoint txIn) = None \<and>
                        (\<forall>c \<in> set (listeners p).
                           SendResult c tooManyAttempts \<in> set (newEvents s s'))
                   else map_of (pendingInputs s') (PreviousOutPoint txIn) =
                          Some (p\<lparr>publishAttempts := publishAttempts p + 1,
                                  minPublishHeight := h + delta\<rparr>)"
      using e sends by (cases "MaxSweepAttempts cfg \<le> publishAttempts p + 1") simp_all
    have dflt: "1 \<le> sint delta \<and> sint delta \<le> 2 ^ nat (publishAttempts p) \<and>
                (0 \<le> sint h \<and> sint h < 2 ^ 30 \<longrightarrow> sint h + 1 \<le> sint (h + delta))"
      if df: "NextAttemptDeltaFunc cfg = DefaultNextAttemptDeltaFunc"
        and lo: "0 \<le> publishAttempts p" and hi: "publishAttempts p < 2 ^ 62"
    proof -
      have dd: "DefaultNextAttemptDeltaFunc rs (publishAttempts p + 1) = Some (delta, rs')"
        using d df by simp
      have b1: "- (2 ^ 63) \<le> publishAttempts p + 1" using lo by simp
      have b2: "publishAttempts p + 1 < 2 ^ 63" using hi by simp
      from Default_delta_Some [OF dd b1 b2]
      have bd: "publishAttempts p + 1 \<le> 31" "1 \<le> sint delta"
        "sint delta \<le> 2 ^ nat (publishAttempts p + 1 - 1)"
        by simp_all
      have le30: "sint delta \<le> 2 ^ 30"
      proof -
        have "(2::int) ^ nat (publishAttempts p) \<le> 2 ^ 30"
          using bd(1) lo by (intro power_increasing) simp_all
        then show ?thesis using bd(3) by simp
      qed
      have "sint h + 1 \<le> sint (h + delta)" if "0 \<le> sint h" "sint h < 2 ^ 30"
        using sint_height_plus_delta [OF that bd(2) le30] bd(2) by simp
      then show ?thesis using bd(2,3) by simp
    qed
    show ?thesis
      using d acc dflt by (intro exI [of _ rs] exI [of _ delta] exI [of _ rs']) blast
  qed
  show ?thesis using r entries by blast
qed

theorem sweep_retry_accounting_witness:
  "fst (sweep (sweeperConfig (Some ErrDoubleSpend))
     (sweeperWith 250 [(opA, pendingOf opA [3, 4] 9 1000), (opB, pendingOf opB [5] 2 1000)])
     [inputOf opA, inputOf opB] 1000 100) = Returned None \<and>
   CallPublishTransaction (spendAll [inputOf opA, inputOf opB]) (Some ErrDoubleSpend) \<in>
     set (newEvents
       (sweeperWith 250 [(opA, pendingOf opA [3, 4] 9 1000), (opB, pendingOf opB [5] 2 1000)])
       (snd (sweep (sweeperConfig (Some ErrDoubleSpend))
         (sweeperWith 250 [(opA, pendingOf opA [3, 4] 9 1000), (opB, pendingOf opB [5] 2 1000)])
         [inputOf opA, inputOf opB] 1000 100))) \<and>
   distinct (map PreviousOutPoint (TxIn (spendAll [inputOf opA, inputOf opB]))) \<and>
   pendingInputs (snd (sweep (sweeperConfig (Some ErrDoubleSpend))
     (sweeperWith 250 [(opA, pendingOf opA [3, 4] 9 1000), (opB, pendingOf opB [5] 2 1000)])
     [inputOf opA, inputOf opB] 1000 100)) =
     [(opB, (pendingOf opB [5] 2 1000)\<lparr>publishAttempts := 3, minPublishHeight := 102\<rparr>)] \<and>
   newEvents
     (sweeperWith 250 [(opA, pendingOf opA [3, 4] 9 1000), (opB, pendingOf opB [5] 2 1000)])
     (snd (sweep (sweeperConfig (Some ErrDoubleSpend))
       (sweeperWith 250 [(opA, pendingOf opA [3, 4] 9 1000), (opB, pendingOf opB [5] 2 1000)])
       [inputOf opA, inputOf opB] 1000 100)) =
     [CallGenSweepScript,
      CallNotifyPublishTx (spendAll [inputOf opA, inputOf opB]) None,
      CallPublishTransaction (spendAll [inputOf opA, inputOf opB]) (Some ErrDoubleSpend),
      SendResult 3 tooManyAttempts,
      SendResult 4 tooManyAttempts,
      CallNtfnRegCancel 0]"
proof -
  let ?s = "sweeperWith 250 [(opA, pendingOf opA [3, 4] 9 1000), (opB, pendingOf opB [5] 2 1000)]"
  let ?run = "sweep (sweeperConfig (Some ErrDoubleSpend)) ?s [inputOf opA, inputOf opB] 1000 100"
  have ev: "newEvents ?s (snd ?run) =
     [CallGenSweepScript,
      CallNotifyPublishTx (spendAll [inputOf opA, inputOf opB]) None,
      CallPublishTransaction (spendAll [inputOf opA, inputOf opB]) (Some ErrDoubleSpend),
      SendResult 3 tooManyAttempts,
      SendResult 4 tooManyAttempts,
      CallNtfnRegCancel 0]"
    unfolding example_sweep_double_spend by (simp add: newEvents_def sweeperWith_def)
  have pub: "CallPublishTransaction (spendAll [inputOf opA, inputOf opB]) (Some ErrDoubleSpend) \<in>
     set (newEvents ?s (snd ?run))"
    unfolding ev by simp
  have res: "fst ?run = Returned None" unfolding example_sweep_double_spend by simp
  have dist: "distinct (map PreviousOutPoint (TxIn (spendAll [inputOf opA, inputOf opB])))"
    by (simp add: spendAll_def inputOf_def opA_def opB_def)
  have pend: "pendingInputs (snd ?run) =
     [(opB, (pendingOf opB [5] 2 1000)\<lparr>publishAttempts := 3, minPublishHeight := 102\<rparr>)]"
    unfolding example_sweep_double_spend by (simp add: sweeperWith_def)
  show ?thesis
    using sweep_retry_accounting [OF surjective_pairing pub] res pub dist pend ev
    by simp
qed

end
